theory Spec2Isabelle
  imports Complex_Main
begin

section \<open>The host program of p2pBandwidthLatencyTest as a trace of runtime calls\<close>

text \<open>
  The program is a single host thread that drives the CUDA runtime. Everything it does is
  a call of the runtime, a write to the host-mapped barrier flag, a call of the host
  timer, a \<open>printf\<close> or an \<open>exit\<close>. Each source function is embedded as the list of these
  actions, in program order, that the function performs; what the runtime hands back
  (device count, peer capability, elapsed times) is a parameter, the record \<open>driver\<close>.
  A runtime call that fails is noticed at the next \<open>cudaCheckError()\<close>; the function
  \<open>exec\<close> below runs an action list against a failure oracle and cuts it there.
\<close>

subsection \<open>Data\<close>

datatype P2PDataTransfer = P2P_WRITE | P2P_READ

text \<open>\<open>stream[d]\<close> of the unidirectional and latency sweeps, \<open>stream0[d]\<close> and
  \<open>stream1[d]\<close> of the bidirectional sweep; \<open>start[d]\<close>, \<open>stop[d]\<close>;
  \<open>buffers[d]\<close>, \<open>buffersD2D[d]\<close>.\<close>

datatype stream = Stream nat | Stream0 nat | Stream1 nat

datatype event = Start nat | Stop nat

datatype buffer = Buffers nat | BuffersD2D nat

text \<open>A \<open>double\<close> is taken as an exact real; the one operation of the program that can
  leave the finite numbers, the division by the measured time, is written out.\<close>

datatype double = Finite real | NotFinite

definition fdiv :: "real \<Rightarrow> real \<Rightarrow> double" where
  "fdiv x y = (if y = 0 then NotFinite else Finite (x / y))"

datatype arg = ArgInt int | ArgStr string | ArgDouble double

text \<open>The runtime calls, with the arguments the program passes. \<open>delay s\<close> is the launch
  \<open>delay<<<1, 1, 0, s>>>(flag)\<close>; \<open>cudaMemcpyPeerAsync dst dstDevice src srcDevice count s\<close>.\<close>

datatype call =
    cudaGetDeviceCount
  | cudaGetDeviceProperties nat
  | cudaSetDevice nat
  | cudaDeviceCanAccessPeer nat nat
  | cudaDeviceEnablePeerAccess nat
  | cudaDeviceDisablePeerAccess nat
  | cudaHostAlloc
  | cudaFreeHost
  | cudaMalloc buffer nat
  | cudaFree buffer
  | cudaStreamCreateWithFlags stream
  | cudaStreamDestroy stream
  | cudaEventCreate event
  | cudaEventDestroy event
  | cudaStreamSynchronize stream
  | delay stream
  | cudaEventRecord event stream
  | cudaStreamWaitEvent stream event
  | cudaMemcpyPeerAsync buffer nat buffer nat nat stream
  | cudaEventElapsedTime event event

datatype timer_call =
  sdkCreateTimer | sdkStartTimer | sdkResetTimer | sdkGetTimerValue | sdkDeleteTimer

datatype action =
    Cuda call
  | Timer timer_call
  | FlagWrite int
  | Printf string "arg list"
  | cudaCheckError
  | Exit int

text \<open>What the runtime and the host timer hand back to the program. \<open>canAccessPeer i j\<close>
  is the value of \<open>access\<close> after \<open>cudaDeviceCanAccessPeer(&access, i, j)\<close> (nonzero or
  zero); \<open>elapsedTime k i j\<close> and \<open>timerValue k i j\<close> are the milliseconds that
  \<open>cudaEventElapsedTime\<close> and \<open>sdkGetTimerValue\<close> return in cell \<open>(i, j)\<close> of the
  \<open>k\<close>-th sweep that \<open>main\<close> runs.\<close>

record driver =
  deviceCount :: nat
  deviceName :: "nat \<Rightarrow> string"
  pciBusID :: "nat \<Rightarrow> int"
  pciDeviceID :: "nat \<Rightarrow> int"
  pciDomainID :: "nat \<Rightarrow> int"
  canAccessPeer :: "nat \<Rightarrow> nat \<Rightarrow> bool"
  elapsedTime :: "nat \<Rightarrow> nat \<Rightarrow> nat \<Rightarrow> real"
  timerValue :: "nat \<Rightarrow> nat \<Rightarrow> nat \<Rightarrow> real"
  createTimer :: bool

definition EXIT_SUCCESS :: int where
  "EXIT_SUCCESS = 0"

definition EXIT_FAILURE :: int where
  "EXIT_FAILURE = 1"

text \<open>Characters that a string literal cannot hold.\<close>

definition tab :: string where
  "tab = [CHR 0x09]"

definition backslash :: string where
  "backslash = [CHR 0x5C]"

definition apostrophe :: string where
  "apostrophe = [CHR 0x27]"

subsection \<open>Loops\<close>

text \<open>\<open>for (int x = 0; x < n; x++) body\<close>, for a body that only performs actions, and for
  a body that also updates local data \<open>s\<close> (the result matrices).\<close>

definition for_loop :: "nat \<Rightarrow> (nat \<Rightarrow> action list) \<Rightarrow> action list" where
  "for_loop n body = concat (map body [0..<n])"

primrec for_each :: "nat list \<Rightarrow> (nat \<Rightarrow> 's \<Rightarrow> action list \<times> 's) \<Rightarrow> 's \<Rightarrow> action list \<times> 's" where
  "for_each [] body s = ([], s)"
| "for_each (x # xs) body s =
     (let (a, s') = body x s; (b, s'') = for_each xs body s' in (a @ b, s''))"

definition for_state :: "nat \<Rightarrow> (nat \<Rightarrow> 's \<Rightarrow> action list \<times> 's) \<Rightarrow> 's \<Rightarrow> action list \<times> 's" where
  "for_state n body s = for_each [0..<n] body s"

subsection \<open>printHelp and checkP2Paccess\<close>

definition printHelp :: "action list" where
  "printHelp =
     [Printf ''Usage:  p2pBandwidthLatencyTest [OPTION]...\<newline>'' [],
      Printf ''Tests bandwidth/latency of GPU pairs using P2P and without P2P\<newline>'' [],
      Printf ''\<newline>'' [],
      Printf ''Options:\<newline>'' [],
      Printf (''--help'' @ tab @ tab @ ''Display this help menu\<newline>'') [],
      Printf (''--p2p_read'' @ tab @ ''Use P2P reads for data transfers between GPU pairs and show corresponding results.\<newline> '' @ tab @ tab @ ''Default used is P2P write operation.\<newline>'') []]"

definition checkP2Paccess :: "driver \<Rightarrow> nat \<Rightarrow> action list" where
  "checkP2Paccess drv numGPUs =
     for_loop numGPUs (\<lambda>i.
       [Cuda (cudaSetDevice i), cudaCheckError] @
       for_loop numGPUs (\<lambda>j.
         if i \<noteq> j then
           [Cuda (cudaDeviceCanAccessPeer i j), cudaCheckError,
            Printf ''Device=%d %s Access Peer Device=%d\<newline>''
              [ArgInt (int i), ArgStr (if canAccessPeer drv i j then ''CAN'' else ''CANNOT''),
               ArgInt (int j)]]
         else [])) @
     [Printf (''\<newline>***NOTE: In case a device doesn'' @ apostrophe @ ''t have P2P access to other one, it falls back to normal memcopy procedure.\<newline>So you can see lesser Bandwidth (GB/s) and unstable Latency (us) in those cases.\<newline>\<newline>'') []]"

subsection \<open>The constants of the sweeps\<close>

text \<open>\<open>int numElems = 10000000; int repeat = 5;\<close> in both bandwidth sweeps,
  \<open>int repeat = 100;\<close> in the latency sweep, \<open>sizeof(int)\<close> is 4. The products the
  program forms from them in \<open>size_t\<close>, at most 200000000, are far below \<open>2^32\<close>, so
  unsigned arithmetic does not wrap and natural numbers stand for them.\<close>

definition numElems :: nat where
  "numElems = 10000000"

definition sizeof_int :: nat where
  "sizeof_int = 4"

definition repeat :: nat where
  "repeat = 5"

definition latency_repeat :: nat where
  "latency_repeat = 100"

subsection \<open>Printing a result matrix\<close>

text \<open>The printing loops at the end of every sweep: a header, the column indices, then one
  line per row with the row index and the cells \<open>matrix[i * numGPUs + j]\<close>.\<close>

definition print_matrix :: "string \<Rightarrow> nat \<Rightarrow> double list \<Rightarrow> action list" where
  "print_matrix header numGPUs matrix =
     [Printf header []] @
     for_loop numGPUs (\<lambda>j. [Printf ''%6d '' [ArgInt (int j)]]) @
     [Printf ''\<newline>'' []] @
     for_loop numGPUs (\<lambda>i.
       [Printf ''%6d '' [ArgInt (int i)]] @
       for_loop numGPUs (\<lambda>j. [Printf ''%6.02f '' [ArgDouble (matrix ! (i * numGPUs + j))]]) @
       [Printf ''\<newline>'' []])"

subsection \<open>outputBandwidthMatrix\<close>

text \<open>The runtime calls of one cell \<open>(i, j)\<close>: the body of the inner loop.\<close>

definition bandwidth_cell :: "driver \<Rightarrow> bool \<Rightarrow> P2PDataTransfer \<Rightarrow> nat \<Rightarrow> nat \<Rightarrow> action list" where
  "bandwidth_cell drv p2p p2p_method i j =
     (let access = canAccessPeer drv i j in
      (if p2p then
         Cuda (cudaDeviceCanAccessPeer i j) #
         (if access then
            [Cuda (cudaDeviceEnablePeerAccess j), cudaCheckError,
             Cuda (cudaSetDevice j), cudaCheckError,
             Cuda (cudaDeviceEnablePeerAccess i), cudaCheckError,
             Cuda (cudaSetDevice i), cudaCheckError]
          else [])
       else []) @
      [Cuda (cudaStreamSynchronize (Stream i)), cudaCheckError,
       FlagWrite 0,
       Cuda (delay (Stream i)), cudaCheckError,
       Cuda (cudaEventRecord (Start i) (Stream i)), cudaCheckError] @
      (if i = j then
         for_loop repeat (\<lambda>r.
           [Cuda (cudaMemcpyPeerAsync (Buffers i) i (BuffersD2D i) i (sizeof_int * numElems) (Stream i))])
       else if p2p_method = P2P_WRITE then
         for_loop repeat (\<lambda>r.
           [Cuda (cudaMemcpyPeerAsync (Buffers j) j (Buffers i) i (sizeof_int * numElems) (Stream i))])
       else
         for_loop repeat (\<lambda>r.
           [Cuda (cudaMemcpyPeerAsync (Buffers i) i (Buffers j) j (sizeof_int * numElems) (Stream i))])) @
      [Cuda (cudaEventRecord (Stop i) (Stream i)), cudaCheckError,
       FlagWrite 1,
       Cuda (cudaStreamSynchronize (Stream i)), cudaCheckError,
       Cuda (cudaEventElapsedTime (Start i) (Stop i))] @
      (if p2p \<and> access then
         [Cuda (cudaDeviceDisablePeerAccess j),
          Cuda (cudaSetDevice j),
          Cuda (cudaDeviceDisablePeerAccess i),
          Cuda (cudaSetDevice i), cudaCheckError]
       else []))"

text \<open>The value stored in \<open>bandwidthMatrix[i * numGPUs + j]\<close>, from the \<open>time_ms\<close>
  that \<open>cudaEventElapsedTime\<close> returned for the cell.\<close>

definition bandwidth_value :: "real \<Rightarrow> nat \<Rightarrow> nat \<Rightarrow> double" where
  "bandwidth_value time_ms i j =
     (let time_s = time_ms / 1000;
          gb = real (numElems * sizeof_int * repeat) / 1000000000;
          gb = (if i = j then gb * 2 else gb)
      in fdiv gb time_s)"

text \<open>The two nested loops over the grid; the local data is \<open>bandwidthMatrix\<close>, a vector of
  \<open>numGPUs * numGPUs\<close> zeros at first.\<close>

definition bandwidth_grid ::
  "driver \<Rightarrow> (nat \<Rightarrow> nat \<Rightarrow> real) \<Rightarrow> nat \<Rightarrow> bool \<Rightarrow> P2PDataTransfer \<Rightarrow> action list \<times> double list" where
  "bandwidth_grid drv time_ms numGPUs p2p p2p_method =
     for_state numGPUs (\<lambda>i bandwidthMatrix.
       let (a, bandwidthMatrix) =
         for_state numGPUs (\<lambda>j bandwidthMatrix.
           (bandwidth_cell drv p2p p2p_method i j,
            bandwidthMatrix[i * numGPUs + j := bandwidth_value (time_ms i j) i j]))
         bandwidthMatrix
       in (Cuda (cudaSetDevice i) # a, bandwidthMatrix))
     (replicate (numGPUs * numGPUs) (Finite 0))"

definition outputBandwidthMatrix ::
  "driver \<Rightarrow> (nat \<Rightarrow> nat \<Rightarrow> real) \<Rightarrow> nat \<Rightarrow> bool \<Rightarrow> P2PDataTransfer \<Rightarrow> action list" where
  "outputBandwidthMatrix drv time_ms numGPUs p2p p2p_method =
     (let (grid, bandwidthMatrix) = bandwidth_grid drv time_ms numGPUs p2p p2p_method in
      [Cuda cudaHostAlloc, cudaCheckError] @
      for_loop numGPUs (\<lambda>d.
        [Cuda (cudaSetDevice d),
         Cuda (cudaStreamCreateWithFlags (Stream d)),
         Cuda (cudaMalloc (Buffers d) (numElems * sizeof_int)), cudaCheckError,
         Cuda (cudaMalloc (BuffersD2D d) (numElems * sizeof_int)), cudaCheckError,
         Cuda (cudaEventCreate (Start d)), cudaCheckError,
         Cuda (cudaEventCreate (Stop d)), cudaCheckError]) @
      grid @
      print_matrix (''   D'' @ backslash @ ''D'') numGPUs bandwidthMatrix @
      for_loop numGPUs (\<lambda>d.
        [Cuda (cudaSetDevice d),
         Cuda (cudaFree (Buffers d)),
         Cuda (cudaFree (BuffersD2D d)), cudaCheckError,
         Cuda (cudaEventDestroy (Start d)), cudaCheckError,
         Cuda (cudaEventDestroy (Stop d)), cudaCheckError,
         Cuda (cudaStreamDestroy (Stream d)), cudaCheckError]) @
      [Cuda cudaFreeHost, cudaCheckError])"

subsection \<open>outputBidirectionalBandwidthMatrix\<close>

definition bidirectional_cell :: "driver \<Rightarrow> bool \<Rightarrow> nat \<Rightarrow> nat \<Rightarrow> action list" where
  "bidirectional_cell drv p2p i j =
     (let access = canAccessPeer drv i j in
      (if p2p then
         Cuda (cudaDeviceCanAccessPeer i j) #
         (if access then
            [Cuda (cudaSetDevice i),
             Cuda (cudaDeviceEnablePeerAccess j), cudaCheckError,
             Cuda (cudaSetDevice j),
             Cuda (cudaDeviceEnablePeerAccess i), cudaCheckError]
          else [])
       else []) @
      [Cuda (cudaSetDevice i),
       Cuda (cudaStreamSynchronize (Stream0 i)),
       Cuda (cudaStreamSynchronize (Stream1 j)), cudaCheckError,
       FlagWrite 0,
       Cuda (cudaSetDevice i),
       Cuda (delay (Stream0 i)), cudaCheckError,
       Cuda (cudaEventRecord (Start i) (Stream0 i)),
       Cuda (cudaStreamWaitEvent (Stream1 j) (Start i))] @
      (if i = j then
         for_loop repeat (\<lambda>r.
           [Cuda (cudaMemcpyPeerAsync (Buffers i) i (BuffersD2D i) i (sizeof_int * numElems) (Stream0 i)),
            Cuda (cudaMemcpyPeerAsync (BuffersD2D i) i (Buffers i) i (sizeof_int * numElems) (Stream1 i))])
       else
         for_loop repeat (\<lambda>r.
           [Cuda (cudaMemcpyPeerAsync (Buffers i) i (Buffers j) j (sizeof_int * numElems) (Stream1 j)),
            Cuda (cudaMemcpyPeerAsync (Buffers j) j (Buffers i) i (sizeof_int * numElems) (Stream0 i))])) @
      [Cuda (cudaEventRecord (Stop j) (Stream1 j)),
       Cuda (cudaStreamWaitEvent (Stream0 i) (Stop j)),
       Cuda (cudaEventRecord (Stop i) (Stream0 i)),
       FlagWrite 1,
       Cuda (cudaStreamSynchronize (Stream0 i)),
       Cuda (cudaStreamSynchronize (Stream1 j)), cudaCheckError,
       Cuda (cudaEventElapsedTime (Start i) (Stop i))] @
      (if p2p \<and> access then
         [Cuda (cudaSetDevice i),
          Cuda (cudaDeviceDisablePeerAccess j),
          Cuda (cudaSetDevice j),
          Cuda (cudaDeviceDisablePeerAccess i)]
       else []))"

definition bidirectional_value :: "real \<Rightarrow> nat \<Rightarrow> nat \<Rightarrow> double" where
  "bidirectional_value time_ms i j =
     (let time_s = time_ms / 1000;
          gb = 2 * real numElems * real sizeof_int * real repeat / 1000000000;
          gb = (if i = j then gb * 2 else gb)
      in fdiv gb time_s)"

definition bidirectional_grid ::
  "driver \<Rightarrow> (nat \<Rightarrow> nat \<Rightarrow> real) \<Rightarrow> nat \<Rightarrow> bool \<Rightarrow> action list \<times> double list" where
  "bidirectional_grid drv time_ms numGPUs p2p =
     for_state numGPUs (\<lambda>i bandwidthMatrix.
       let (a, bandwidthMatrix) =
         for_state numGPUs (\<lambda>j bandwidthMatrix.
           (bidirectional_cell drv p2p i j,
            bandwidthMatrix[i * numGPUs + j := bidirectional_value (time_ms i j) i j]))
         bandwidthMatrix
       in (Cuda (cudaSetDevice i) # a, bandwidthMatrix))
     (replicate (numGPUs * numGPUs) (Finite 0))"

definition outputBidirectionalBandwidthMatrix ::
  "driver \<Rightarrow> (nat \<Rightarrow> nat \<Rightarrow> real) \<Rightarrow> nat \<Rightarrow> bool \<Rightarrow> action list" where
  "outputBidirectionalBandwidthMatrix drv time_ms numGPUs p2p =
     (let (grid, bandwidthMatrix) = bidirectional_grid drv time_ms numGPUs p2p in
      [Cuda cudaHostAlloc, cudaCheckError] @
      for_loop numGPUs (\<lambda>d.
        [Cuda (cudaSetDevice d),
         Cuda (cudaMalloc (Buffers d) (numElems * sizeof_int)),
         Cuda (cudaMalloc (BuffersD2D d) (numElems * sizeof_int)), cudaCheckError,
         Cuda (cudaEventCreate (Start d)), cudaCheckError,
         Cuda (cudaEventCreate (Stop d)), cudaCheckError,
         Cuda (cudaStreamCreateWithFlags (Stream0 d)), cudaCheckError,
         Cuda (cudaStreamCreateWithFlags (Stream1 d)), cudaCheckError]) @
      grid @
      print_matrix (''   D'' @ backslash @ ''D'') numGPUs bandwidthMatrix @
      for_loop numGPUs (\<lambda>d.
        [Cuda (cudaSetDevice d),
         Cuda (cudaFree (Buffers d)),
         Cuda (cudaFree (BuffersD2D d)), cudaCheckError,
         Cuda (cudaEventDestroy (Start d)), cudaCheckError,
         Cuda (cudaEventDestroy (Stop d)), cudaCheckError,
         Cuda (cudaStreamDestroy (Stream0 d)), cudaCheckError,
         Cuda (cudaStreamDestroy (Stream1 d)), cudaCheckError]) @
      [Cuda cudaFreeHost, cudaCheckError])"

subsection \<open>outputLatencyMatrix\<close>

definition latency_cell :: "driver \<Rightarrow> bool \<Rightarrow> P2PDataTransfer \<Rightarrow> nat \<Rightarrow> nat \<Rightarrow> action list" where
  "latency_cell drv p2p p2p_method i j =
     (let access = canAccessPeer drv i j in
      (if p2p then
         Cuda (cudaDeviceCanAccessPeer i j) #
         (if access then
            [Cuda (cudaDeviceEnablePeerAccess j), cudaCheckError,
             Cuda (cudaSetDevice j),
             Cuda (cudaDeviceEnablePeerAccess i),
             Cuda (cudaSetDevice i), cudaCheckError]
          else [])
       else []) @
      [Cuda (cudaStreamSynchronize (Stream i)), cudaCheckError,
       FlagWrite 0,
       Cuda (delay (Stream i)), cudaCheckError,
       Cuda (cudaEventRecord (Start i) (Stream i)),
       Timer sdkResetTimer] @
      (if i = j then
         for_loop latency_repeat (\<lambda>r.
           [Cuda (cudaMemcpyPeerAsync (Buffers i) i (BuffersD2D i) i 1 (Stream i))])
       else if p2p_method = P2P_WRITE then
         for_loop latency_repeat (\<lambda>r.
           [Cuda (cudaMemcpyPeerAsync (Buffers j) j (Buffers i) i 1 (Stream i))])
       else
         for_loop latency_repeat (\<lambda>r.
           [Cuda (cudaMemcpyPeerAsync (Buffers i) i (Buffers j) j 1 (Stream i))])) @
      [Timer sdkGetTimerValue,
       Cuda (cudaEventRecord (Stop i) (Stream i)),
       FlagWrite 1,
       Cuda (cudaStreamSynchronize (Stream i)), cudaCheckError,
       Cuda (cudaEventElapsedTime (Start i) (Stop i))] @
      (if p2p \<and> access then
         [Cuda (cudaDeviceDisablePeerAccess j),
          Cuda (cudaSetDevice j),
          Cuda (cudaDeviceDisablePeerAccess i),
          Cuda (cudaSetDevice i), cudaCheckError]
       else []))"

text \<open>The values stored in \<open>gpuLatencyMatrix[i * numGPUs + j]\<close> and
  \<open>cpuLatencyMatrix[i * numGPUs + j]\<close>: \<open>time_ms * 1e3 / repeat\<close>.\<close>

definition latency_value :: "real \<Rightarrow> double" where
  "latency_value time_ms = Finite (time_ms * 1000 / real latency_repeat)"

definition latency_grid ::
  "driver \<Rightarrow> (nat \<Rightarrow> nat \<Rightarrow> real) \<Rightarrow> (nat \<Rightarrow> nat \<Rightarrow> real) \<Rightarrow> nat \<Rightarrow> bool \<Rightarrow> P2PDataTransfer \<Rightarrow>
     action list \<times> double list \<times> double list" where
  "latency_grid drv gpu_time_ms cpu_time_ms numGPUs p2p p2p_method =
     for_state numGPUs (\<lambda>i matrices.
       let (a, matrices) =
         for_state numGPUs (\<lambda>j (gpuLatencyMatrix, cpuLatencyMatrix).
           (latency_cell drv p2p p2p_method i j,
            gpuLatencyMatrix[i * numGPUs + j := latency_value (gpu_time_ms i j)],
            cpuLatencyMatrix[i * numGPUs + j := latency_value (cpu_time_ms i j)]))
         matrices
       in (Cuda (cudaSetDevice i) # a, matrices))
     (replicate (numGPUs * numGPUs) (Finite 0), replicate (numGPUs * numGPUs) (Finite 0))"

definition outputLatencyMatrix ::
  "driver \<Rightarrow> (nat \<Rightarrow> nat \<Rightarrow> real) \<Rightarrow> (nat \<Rightarrow> nat \<Rightarrow> real) \<Rightarrow> nat \<Rightarrow> bool \<Rightarrow> P2PDataTransfer \<Rightarrow>
     action list" where
  "outputLatencyMatrix drv gpu_time_ms cpu_time_ms numGPUs p2p p2p_method =
     (let (grid, gpuLatencyMatrix, cpuLatencyMatrix) =
            latency_grid drv gpu_time_ms cpu_time_ms numGPUs p2p p2p_method in
      [Cuda cudaHostAlloc, cudaCheckError,
       Timer sdkCreateTimer] @
      (if \<not> createTimer drv then
         [Printf ''Failed to create stop watch\<newline>'' [], Exit EXIT_FAILURE]
       else []) @
      [Timer sdkStartTimer] @
      for_loop numGPUs (\<lambda>d.
        [Cuda (cudaSetDevice d),
         Cuda (cudaStreamCreateWithFlags (Stream d)),
         Cuda (cudaMalloc (Buffers d) 1),
         Cuda (cudaMalloc (BuffersD2D d) 1), cudaCheckError,
         Cuda (cudaEventCreate (Start d)), cudaCheckError,
         Cuda (cudaEventCreate (Stop d)), cudaCheckError]) @
      grid @
      print_matrix ''   GPU'' numGPUs gpuLatencyMatrix @
      print_matrix ''\<newline>   CPU'' numGPUs cpuLatencyMatrix @
      for_loop numGPUs (\<lambda>d.
        [Cuda (cudaSetDevice d),
         Cuda (cudaFree (Buffers d)),
         Cuda (cudaFree (BuffersD2D d)), cudaCheckError,
         Cuda (cudaEventDestroy (Start d)), cudaCheckError,
         Cuda (cudaEventDestroy (Stop d)), cudaCheckError,
         Cuda (cudaStreamDestroy (Stream d)), cudaCheckError]) @
      [Timer sdkDeleteTimer,
       Cuda cudaFreeHost, cudaCheckError])"

subsection \<open>main\<close>

definition sSampleName :: string where
  "sSampleName = ''P2P (Peer-to-Peer) GPU Bandwidth Latency Test''"

text \<open>One cell of the connectivity matrix that \<open>main\<close> prints.\<close>

definition connectivity_cell :: "driver \<Rightarrow> nat \<Rightarrow> nat \<Rightarrow> action list" where
  "connectivity_cell drv i j =
     (if i \<noteq> j then
        [Cuda (cudaDeviceCanAccessPeer i j), cudaCheckError,
         Printf ''%6d'' [ArgInt (if canAccessPeer drv i j then 1 else 0)]]
      else
        [Printf ''%6d'' [ArgInt 1]])"

definition connectivity_matrix :: "driver \<Rightarrow> nat \<Rightarrow> action list" where
  "connectivity_matrix drv numGPUs =
     [Printf ''P2P Connectivity Matrix\<newline>'' [],
      Printf (''     D'' @ backslash @ ''D'') []] @
     for_loop numGPUs (\<lambda>j. [Printf ''%6d'' [ArgInt (int j)]]) @
     [Printf ''\<newline>'' []] @
     for_loop numGPUs (\<lambda>i.
       [Printf (''%6d'' @ tab) [ArgInt (int i)]] @
       for_loop numGPUs (\<lambda>j. connectivity_cell drv i j) @
       [Printf ''\<newline>'' []])"

text \<open>\<open>help\<close> and \<open>p2p_read\<close> are what \<open>checkCmdLineFlag\<close> returns for the flags
  \<open>"help"\<close> and \<open>"p2p_read"\<close>. \<open>return 0\<close> from \<open>main\<close> ends the process with status 0.\<close>

definition main :: "driver \<Rightarrow> bool \<Rightarrow> bool \<Rightarrow> action list" where
  "main drv help p2p_read =
     (let numGPUs = deviceCount drv in
      [Cuda cudaGetDeviceCount, cudaCheckError] @
      (if help then printHelp @ [Exit 0]
       else
         (let p2p_method = (if p2p_read then P2P_READ else P2P_WRITE) in
          [Printf ''[%s]\<newline>'' [ArgStr sSampleName]] @
          for_loop numGPUs (\<lambda>i.
            [Cuda (cudaGetDeviceProperties i), cudaCheckError,
             Printf ''Device: %d, %s, pciBusID: %x, pciDeviceID: %x, pciDomainID:%x\<newline>''
               [ArgInt (int i), ArgStr (deviceName drv i), ArgInt (pciBusID drv i),
                ArgInt (pciDeviceID drv i), ArgInt (pciDomainID drv i)]]) @
          checkP2Paccess drv numGPUs @
          connectivity_matrix drv numGPUs @
          [Printf ''Unidirectional P2P=Disabled Bandwidth Matrix (GB/s)\<newline>'' []] @
          outputBandwidthMatrix drv (elapsedTime drv 0) numGPUs False P2P_WRITE @
          [Printf ''Unidirectional P2P=Enabled Bandwidth (P2P Writes) Matrix (GB/s)\<newline>'' []] @
          outputBandwidthMatrix drv (elapsedTime drv 1) numGPUs True P2P_WRITE @
          (if p2p_method = P2P_READ then
             [Printf ''Unidirectional P2P=Enabled Bandwidth (P2P Reads) Matrix (GB/s)\<newline>'' []] @
             outputBandwidthMatrix drv (elapsedTime drv 2) numGPUs True p2p_method
           else []) @
          [Printf ''Bidirectional P2P=Disabled Bandwidth Matrix (GB/s)\<newline>'' []] @
          outputBidirectionalBandwidthMatrix drv (elapsedTime drv 3) numGPUs False @
          [Printf ''Bidirectional P2P=Enabled Bandwidth Matrix (GB/s)\<newline>'' []] @
          outputBidirectionalBandwidthMatrix drv (elapsedTime drv 4) numGPUs True @
          [Printf ''P2P=Disabled Latency Matrix (us)\<newline>'' []] @
          outputLatencyMatrix drv (elapsedTime drv 5) (timerValue drv 5) numGPUs False P2P_WRITE @
          [Printf ''P2P=Enabled Latency (P2P Writes) Matrix (us)\<newline>'' []] @
          outputLatencyMatrix drv (elapsedTime drv 6) (timerValue drv 6) numGPUs True P2P_WRITE @
          (if p2p_method = P2P_READ then
             [Printf ''P2P=Enabled Latency (P2P Reads) Matrix (us)\<newline>'' []] @
             outputLatencyMatrix drv (elapsedTime drv 7) (timerValue drv 7) numGPUs True p2p_method
           else []) @
          [Printf ''\<newline>NOTE: The CUDA Samples are not meant for performance measurements. Results may vary when GPU Boost is enabled.\<newline>'' [],
           Exit EXIT_SUCCESS])))"

subsection \<open>Running an action list\<close>

text \<open>\<open>exec fails k err as\<close> runs the actions \<open>as\<close>: \<open>k\<close> counts the runtime calls made so
  far, \<open>fails k\<close> says whether the \<open>k\<close>-th of them returns an error, and \<open>err\<close> is the
  runtime's last-error state, which a failing call sets and only \<open>cudaGetLastError\<close>
  clears. \<open>cudaCheckError()\<close> reads it: on an error it prints the diagnostic (its
  arguments, file, line and error string, are left out) and exits with \<open>EXIT_FAILURE\<close>.
  The result is the actions performed and the exit status, if the process has exited.\<close>

fun exec :: "(nat \<Rightarrow> bool) \<Rightarrow> nat \<Rightarrow> bool \<Rightarrow> action list \<Rightarrow> action list \<times> int option" where
  "exec fails k err [] = ([], None)"
| "exec fails k err (Exit c # as) = ([Exit c], Some c)"
| "exec fails k err (cudaCheckError # as) =
     (if err then
        ([cudaCheckError,
          Printf (''Cuda failure %s:%d: '' @ apostrophe @ ''%s'' @ apostrophe @ ''\<newline>'') [],
          Exit EXIT_FAILURE], Some EXIT_FAILURE)
      else (let (t, r) = exec fails k False as in (cudaCheckError # t, r)))"
| "exec fails k err (Cuda c # as) =
     (let (t, r) = exec fails (Suc k) (err \<or> fails k) as in (Cuda c # t, r))"
| "exec fails k err (a # as) =
     (let (t, r) = exec fails k err as in (a # t, r))"

definition run :: "(nat \<Rightarrow> bool) \<Rightarrow> action list \<Rightarrow> action list \<times> int option" where
  "run fails as = exec fails 0 False as"

section \<open>Observing a trace\<close>

subsection \<open>Classes of actions\<close>

definition is_transfer :: "action \<Rightarrow> bool" where
  "is_transfer a = (case a of Cuda (cudaMemcpyPeerAsync _ _ _ _ _ _) \<Rightarrow> True | _ \<Rightarrow> False)"

definition transfers :: "action list \<Rightarrow> action list" where
  "transfers as = filter is_transfer as"

text \<open>The copy in the opposite direction: source and destination exchanged.\<close>

definition reverse_copy :: "action \<Rightarrow> action" where
  "reverse_copy a = (case a of
     Cuda (cudaMemcpyPeerAsync dst dstDevice src srcDevice count s) \<Rightarrow>
       Cuda (cudaMemcpyPeerAsync src srcDevice dst dstDevice count s)
   | _ \<Rightarrow> a)"

text \<open>The operations that are enqueued on a stream: the barrier kernel, event records,
  event waits and the copies.\<close>

definition stream_of :: "action \<Rightarrow> stream option" where
  "stream_of a = (case a of
     Cuda (delay s) \<Rightarrow> Some s
   | Cuda (cudaEventRecord e s) \<Rightarrow> Some s
   | Cuda (cudaStreamWaitEvent s e) \<Rightarrow> Some s
   | Cuda (cudaMemcpyPeerAsync _ _ _ _ _ s) \<Rightarrow> Some s
   | _ \<Rightarrow> None)"

definition is_enqueue :: "action \<Rightarrow> bool" where
  "is_enqueue a = (stream_of a \<noteq> None)"

definition is_flag_write :: "action \<Rightarrow> bool" where
  "is_flag_write a = (case a of FlagWrite _ \<Rightarrow> True | _ \<Rightarrow> False)"

text \<open>What the host does to the barrier: the flag writes and the enqueued operations.\<close>

definition barrier_view :: "action list \<Rightarrow> action list" where
  "barrier_view as = filter (\<lambda>a. is_flag_write a \<or> is_enqueue a) as"

definition is_peer_call :: "action \<Rightarrow> bool" where
  "is_peer_call a = (case a of
     Cuda (cudaDeviceEnablePeerAccess _) \<Rightarrow> True
   | Cuda (cudaDeviceDisablePeerAccess _) \<Rightarrow> True
   | _ \<Rightarrow> False)"

definition is_device_query :: "action \<Rightarrow> bool" where
  "is_device_query a = (case a of
     Cuda cudaGetDeviceCount \<Rightarrow> True
   | Cuda (cudaGetDeviceProperties _) \<Rightarrow> True
   | Cuda (cudaDeviceCanAccessPeer _ _) \<Rightarrow> True
   | _ \<Rightarrow> False)"

definition is_allocation :: "action \<Rightarrow> bool" where
  "is_allocation a = (case a of
     Cuda cudaHostAlloc \<Rightarrow> True
   | Cuda (cudaMalloc _ _) \<Rightarrow> True
   | Cuda (cudaStreamCreateWithFlags _) \<Rightarrow> True
   | Cuda (cudaEventCreate _) \<Rightarrow> True
   | _ \<Rightarrow> False)"

definition is_exit :: "action \<Rightarrow> bool" where
  "is_exit a = (case a of Exit _ \<Rightarrow> True | _ \<Rightarrow> False)"

subsection \<open>State along a trace\<close>

text \<open>\<open>annotate step s as\<close> pairs every action with the state in which it is issued.\<close>

primrec annotate :: "('s \<Rightarrow> action \<Rightarrow> 's) \<Rightarrow> 's \<Rightarrow> action list \<Rightarrow> (action \<times> 's) list" where
  "annotate step s [] = []"
| "annotate step s (a # as) = (a, s) # annotate step (step s a) as"

text \<open>The barrier flag: the value last written by the host, and \<open>None\<close> while it has
  none (\<open>cudaHostAlloc\<close> does not initialise the cell, \<open>cudaFreeHost\<close> gives it up).\<close>

definition flag_step :: "int option \<Rightarrow> action \<Rightarrow> int option" where
  "flag_step f a = (case a of
     FlagWrite v \<Rightarrow> Some v
   | Cuda cudaHostAlloc \<Rightarrow> None
   | Cuda cudaFreeHost \<Rightarrow> None
   | _ \<Rightarrow> f)"

text \<open>\<open>flag_safe f as\<close>: from flag state \<open>f\<close>, every operation that \<open>as\<close> enqueues on a
  stream is enqueued while the flag reads 0.\<close>

definition flag_safe :: "int option \<Rightarrow> action list \<Rightarrow> bool" where
  "flag_safe f as = (\<forall>(a, f') \<in> set (annotate flag_step f as). is_enqueue a \<longrightarrow> f' = Some 0)"

text \<open>The peer-access relation of the runtime: the current device, and the set of pairs
  \<open>(device, peer)\<close> for which access is enabled. \<open>cudaDeviceEnablePeerAccess(p, 0)\<close> and
  \<open>cudaDeviceDisablePeerAccess(p)\<close> act on the current device.\<close>

definition peer_step :: "nat \<times> (nat \<times> nat) set \<Rightarrow> action \<Rightarrow> nat \<times> (nat \<times> nat) set" where
  "peer_step st a = (case a of
     Cuda (cudaSetDevice d) \<Rightarrow> (d, snd st)
   | Cuda (cudaDeviceEnablePeerAccess p) \<Rightarrow> (fst st, insert (fst st, p) (snd st))
   | Cuda (cudaDeviceDisablePeerAccess p) \<Rightarrow> (fst st, snd st - {(fst st, p)})
   | _ \<Rightarrow> st)"

definition peer_after :: "nat \<times> (nat \<times> nat) set \<Rightarrow> action list \<Rightarrow> nat \<times> (nat \<times> nat) set" where
  "peer_after st as = foldl peer_step st as"

text \<open>The part of a grid that comes before cell \<open>(i, j)\<close>: the rows before \<open>i\<close>, then
  \<open>cudaSetDevice(i)\<close> and the cells before \<open>j\<close> of row \<open>i\<close>.\<close>

definition grid_before :: "(nat \<Rightarrow> nat \<Rightarrow> action list) \<Rightarrow> nat \<Rightarrow> nat \<Rightarrow> nat \<Rightarrow> action list" where
  "grid_before cell numGPUs i j =
     for_loop i (\<lambda>i'. Cuda (cudaSetDevice i') # for_loop numGPUs (cell i')) @
     Cuda (cudaSetDevice i) # for_loop j (cell i)"

subsection \<open>What is printed\<close>

definition printed_cells :: "action list \<Rightarrow> double list" where
  "printed_cells as =
     concat (map (\<lambda>a. case a of Printf f [ArgDouble d] \<Rightarrow> [d] | _ \<Rightarrow> []) as)"

definition printed_lines :: "action list \<Rightarrow> nat" where
  "printed_lines as = length (filter (\<lambda>a. a = Printf ''\<newline>'' []) as)"




subsection \<open>Comparing reported values\<close>

fun double_less :: "double \<Rightarrow> double \<Rightarrow> bool" where
  "double_less (Finite x) (Finite y) = (x < y)"
| "double_less _ _ = False"

subsection \<open>A machine with two devices\<close>

definition two_gpus :: driver where
  "two_gpus = \<lparr> deviceCount = 2, deviceName = (\<lambda>d. ''GPU''), pciBusID = (\<lambda>d. int d + 1),
     pciDeviceID = (\<lambda>d. 0), pciDomainID = (\<lambda>d. 0), canAccessPeer = (\<lambda>i j. i \<noteq> j),
     elapsedTime = (\<lambda>k i j. 20), timerValue = (\<lambda>k i j. 1), createTimer = True \<rparr>"

subsection \<open>Auxiliary notions for the proofs\<close>

definition is_printf :: "action \<Rightarrow> bool" where
  "is_printf a = (case a of Printf _ _ \<Rightarrow> True | _ \<Rightarrow> False)"

text \<open>Writing one row, and the first rows, of a matrix that is stored row by row.\<close>

definition write_row :: "nat \<Rightarrow> (nat \<Rightarrow> nat \<Rightarrow> 'a) \<Rightarrow> nat \<Rightarrow> nat \<Rightarrow> 'a list \<Rightarrow> 'a list" where
  "write_row n v i k m = fold (\<lambda>j m. m[i * n + j := v i j]) [0..<k] m"

definition write_rows :: "nat \<Rightarrow> (nat \<Rightarrow> nat \<Rightarrow> 'a) \<Rightarrow> nat \<Rightarrow> 'a list \<Rightarrow> 'a list" where
  "write_rows n v r m = fold (\<lambda>i m. write_row n v i n m) [0..<r] m"

text \<open>Oracles for examples: the same time in every cell, and a runtime that never fails.\<close>

definition every_cell :: "real \<Rightarrow> nat \<Rightarrow> nat \<Rightarrow> real" where
  "every_cell t i j = t"

definition never_fails :: "nat \<Rightarrow> bool" where
  "never_fails k = False"

definition always_fails :: "nat \<Rightarrow> bool" where
  "always_fails k = True"


subsection \<open>Stream order and event waits\<close>

text \<open>The order in which the runtime executes enqueued operations. A schedule gives every
  position \<open>k\<close> of a list of enqueued operations the time \<open>B k\<close> at which the operation
  begins and the time \<open>E k\<close> at which it ends. It is in order when operations of
  one stream run in the order of their enqueueing, and an event wait ends no earlier than
  the latest record of its event that was enqueued before it. The timestamp of an event is
  the end time of its latest record.\<close>

definition is_record_of :: "event \<Rightarrow> action \<Rightarrow> bool" where
  "is_record_of e a = (case a of Cuda (cudaEventRecord e' _) \<Rightarrow> e' = e | _ \<Rightarrow> False)"

definition in_order :: "action list \<Rightarrow> (nat \<Rightarrow> real) \<Rightarrow> (nat \<Rightarrow> real) \<Rightarrow> bool" where
  "in_order ops B E \<longleftrightarrow>
     (\<forall>k<length ops. B k \<le> E k) \<and>
     (\<forall>k<length ops. \<forall>k'<k. stream_of (ops ! k') = stream_of (ops ! k) \<longrightarrow> E k' \<le> B k) \<and>
     (\<forall>k<length ops. \<forall>k'<k. \<forall>s e.
        ops ! k = Cuda (cudaStreamWaitEvent s e) \<and> is_record_of e (ops ! k') \<and>
        (\<forall>k''. k' < k'' \<and> k'' < k \<longrightarrow> \<not> is_record_of e (ops ! k''))
        \<longrightarrow> E k' \<le> E k)"

text \<open>A schedule that runs the operations one after the other.\<close>

definition one_by_one_begin :: "nat \<Rightarrow> real" where
  "one_by_one_begin k = 2 * real k"

definition one_by_one_end :: "nat \<Rightarrow> real" where
  "one_by_one_end k = 2 * real k + 1"

definition is_elapsed_time :: "action \<Rightarrow> bool" where
  "is_elapsed_time a = (case a of Cuda (cudaEventElapsedTime _ _) \<Rightarrow> True | _ \<Rightarrow> False)"

subsection \<open>The measurement of a cell\<close>

text \<open>The actions that make up the measurement proper of a cell: waiting for the streams,
  the flag writes, the enqueued operations, the host timer and the reading of the elapsed
  time.\<close>

definition is_protocol :: "action \<Rightarrow> bool" where
  "is_protocol a = (case a of
     Cuda (cudaStreamSynchronize _) \<Rightarrow> True
   | Cuda (cudaEventElapsedTime _ _) \<Rightarrow> True
   | FlagWrite _ \<Rightarrow> True
   | Timer _ \<Rightarrow> True
   | _ \<Rightarrow> is_enqueue a)"

definition is_set_device :: "action \<Rightarrow> bool" where
  "is_set_device a = (case a of Cuda (cudaSetDevice _) \<Rightarrow> True | _ \<Rightarrow> False)"

text \<open>\<open>leaves_disabled as\<close>: started with no peer access enabled, on whichever current
  device, \<open>as\<close> ends with no peer access enabled.\<close>

definition leaves_disabled :: "action list \<Rightarrow> bool" where
  "leaves_disabled as \<longleftrightarrow> (\<forall>c. snd (peer_after (c, {}) as) = {})"

text \<open>What the host timer of the latency sweep sees: the flag writes, the timer calls and
  the enqueued operations.\<close>

definition is_timer :: "action \<Rightarrow> bool" where
  "is_timer a = (case a of Timer _ \<Rightarrow> True | _ \<Rightarrow> False)"

definition timer_view :: "action list \<Rightarrow> action list" where
  "timer_view as = filter (\<lambda>a. is_flag_write a \<or> is_timer a \<or> is_enqueue a) as"

section \<open>Properties\<close>

subsection \<open>Loops\<close>

lemma for_loop_0: "for_loop 0 body = []"
  by (simp add: for_loop_def)

lemma for_loop_Suc: "for_loop (Suc n) body = for_loop n body @ body n"
  by (simp add: for_loop_def)

lemma for_loop_single: "for_loop n (\<lambda>r. [x]) = replicate n x"
  by (induction n) (simp_all add: for_loop_0 for_loop_Suc replicate_append_same)

lemma filter_for_loop: "filter P (for_loop n body) = for_loop n (\<lambda>i. filter P (body i))"
  by (simp add: for_loop_def filter_concat comp_def)

lemma for_loop_Nil: "(\<And>i. i < n \<Longrightarrow> body i = []) \<Longrightarrow> for_loop n body = []"
  by (simp add: for_loop_def)

lemma fst_for_each:
  "(\<And>x s. fst (body x s) = f x) \<Longrightarrow> fst (for_each xs body s) = concat (map f xs)"
  by (induction xs arbitrary: s) (simp_all add: split_beta Let_def)

lemma snd_for_each:
  "snd (for_each xs body s) = fold (\<lambda>x s. snd (body x s)) xs s"
  by (induction xs arbitrary: s) (simp_all add: split_beta Let_def)

lemma fst_for_state:
  "(\<And>x s. fst (body x s) = f x) \<Longrightarrow> fst (for_state n body s) = for_loop n f"
  by (simp add: for_state_def for_loop_def fst_for_each)

lemma snd_for_state:
  "snd (for_state n body s) = fold (\<lambda>x s. snd (body x s)) [0..<n] s"
  by (simp add: for_state_def snd_for_each)

lemma fold_prod:
  "fold (\<lambda>x s. (F x (fst s), G x (snd s))) xs s = (fold F xs (fst s), fold G xs (snd s))"
  by (induction xs arbitrary: s) simp_all

subsection \<open>Matrices stored row by row\<close>

lemma length_write_row: "length (write_row n v i k m) = length m"
  by (induction k) (simp_all add: write_row_def)

lemma nth_write_row:
  "x < length m \<Longrightarrow>
   write_row n v i k m ! x = (if i * n \<le> x \<and> x < i * n + k then v i (x - i * n) else m ! x)"
proof (induction k)
  case 0
  then show ?case by (auto simp: write_row_def)
next
  case (Suc k)
  have step: "write_row n v i (Suc k) m = (write_row n v i k m)[i * n + k := v i k]"
    by (simp add: write_row_def)
  show ?case
  proof (cases "x = i * n + k")
    case True
    then show ?thesis using Suc.prems by (simp add: step length_write_row)
  next
    case False
    then have "write_row n v i (Suc k) m ! x = write_row n v i k m ! x"
      by (simp add: step)
    with Suc False show ?thesis by auto
  qed
qed

lemma length_write_rows: "length (write_rows n v r m) = length m"
  by (induction r) (simp_all add: write_rows_def length_write_row)

lemma nth_write_rows:
  "x < length m \<Longrightarrow>
   write_rows n v r m ! x = (if x < r * n then v (x div n) (x mod n) else m ! x)"
proof (induction r)
  case 0
  then show ?case by (simp add: write_rows_def)
next
  case (Suc r)
  have step: "write_rows n v (Suc r) m = write_row n v r n (write_rows n v r m)"
    by (simp add: write_rows_def)
  have row: "r * n \<le> x \<Longrightarrow> x < r * n + n \<Longrightarrow> x div n = r \<and> x mod n = x - r * n"
  proof -
    assume a: "r * n \<le> x" "x < r * n + n"
    then have "0 < n" by (cases n) auto
    obtain d where d: "x = r * n + d" "d < n"
      using a by (metis le_Suc_ex nat_add_left_cancel_less)
    then show ?thesis by simp
  qed
  show ?case
    using Suc row by (auto simp: step nth_write_row length_write_rows)
qed

lemma write_rows_cell:
  assumes "i < n" "j < n" "length m = n * n"
  shows "write_rows n v n m ! (i * n + j) = v i j"
proof -
  have "i * n + j < n * n"
  proof -
    have "i * n + j < i * n + n" using assms by simp
    also have "\<dots> = Suc i * n" by simp
    also have "\<dots> \<le> n * n" using assms by (metis Suc_leI mult_le_mono1)
    finally show ?thesis .
  qed
  then show ?thesis using assms by (simp add: nth_write_rows)
qed

subsection \<open>What a trace prints\<close>

lemma printed_cells_append: "printed_cells (xs @ ys) = printed_cells xs @ printed_cells ys"
  by (simp add: printed_cells_def)

lemma printed_cells_Cons:
  "printed_cells (a # as) =
     (case a of Printf f [ArgDouble d] \<Rightarrow> [d] | _ \<Rightarrow> []) @ printed_cells as"
  by (simp add: printed_cells_def)

lemma printed_cells_Nil: "printed_cells [] = []"
  by (simp add: printed_cells_def)

lemma printed_lines_Cons:
  "printed_lines (a # as) = (if a = Printf ''\<newline>'' [] then 1 else 0) + printed_lines as"
  by (simp add: printed_lines_def)

lemma printed_lines_Nil: "printed_lines [] = 0"
  by (simp add: printed_lines_def)

lemma printed_cells_for_loop:
  "printed_cells (for_loop n body) = concat (map (\<lambda>i. printed_cells (body i)) [0..<n])"
  by (induction n) (simp_all add: for_loop_0 for_loop_Suc printed_cells_append printed_cells_Nil)

lemma printed_lines_append: "printed_lines (xs @ ys) = printed_lines xs + printed_lines ys"
  by (simp add: printed_lines_def)

lemma printed_lines_for_loop:
  "printed_lines (for_loop n body) = (\<Sum>i\<leftarrow>[0..<n]. printed_lines (body i))"
  by (induction n) (simp_all add: for_loop_0 for_loop_Suc printed_lines_append, simp add: printed_lines_def)

lemma no_printf_cells: "filter is_printf as = [] \<Longrightarrow> printed_cells as = []"
  by (induction as) (auto simp: printed_cells_def is_printf_def split: action.splits if_splits)

lemma no_printf_lines: "filter is_printf as = [] \<Longrightarrow> printed_lines as = 0"
  by (induction as) (auto simp: printed_lines_def is_printf_def split: action.splits if_splits)

lemma rows_take:
  "r * n \<le> length m \<Longrightarrow>
   concat (map (\<lambda>i. map (\<lambda>j. m ! (i * n + j)) [0..<n]) [0..<r]) = take (r * n) m"
proof (induction r)
  case 0
  then show ?case by simp
next
  case (Suc r)
  have "take n (drop (r * n) m) = map (\<lambda>j. m ! (r * n + j)) [0..<n]"
    using Suc.prems by (intro nth_equalityI) auto
  moreover have "take (Suc r * n) m = take (r * n) m @ take n (drop (r * n) m)"
  proof -
    have "Suc r * n = r * n + n" by simp
    then show ?thesis by (simp only: take_add)
  qed
  moreover have "concat (map (\<lambda>i. map (\<lambda>j. m ! (i * n + j)) [0..<n]) [0..<r]) = take (r * n) m"
    using Suc by simp
  ultimately show ?case by (simp del: mult_Suc)
qed

lemma printed_cells_print_matrix:
  "length m = n * n \<Longrightarrow> printed_cells (print_matrix h n m) = m"
proof -
  assume len: "length m = n * n"
  have "printed_cells (print_matrix h n m) =
          concat (map (\<lambda>i. map (\<lambda>j. m ! (i * n + j)) [0..<n]) [0..<n])"
    by (simp add: print_matrix_def printed_cells_append printed_cells_for_loop
        printed_cells_Cons printed_cells_Nil)
  also have "\<dots> = take (n * n) m" using len by (simp add: rows_take)
  finally show ?thesis using len by simp
qed

lemma printed_lines_print_matrix:
  "h \<noteq> ''\<newline>'' \<Longrightarrow> printed_lines (print_matrix h n m) = Suc n"
  by (simp add: print_matrix_def printed_lines_append printed_lines_for_loop
      printed_lines_Cons printed_lines_Nil sum_list_triv)

lemma no_printf_for_loop:
  "(\<And>i. filter is_printf (body i) = []) \<Longrightarrow> filter is_printf (for_loop n body) = []"
  by (simp add: filter_for_loop for_loop_Nil)

lemma is_printf_simps:
  "is_printf (Printf f args)" "\<not> is_printf (Cuda c)" "\<not> is_printf (Timer t)"
  "\<not> is_printf (FlagWrite v)" "\<not> is_printf cudaCheckError" "\<not> is_printf (Exit e)"
  by (simp_all add: is_printf_def)

lemma is_printf_print_matrix: "filter is_printf (print_matrix h n m) = print_matrix h n m"
  by (simp add: print_matrix_def filter_for_loop is_printf_simps)

lemma printed_cells_filter: "printed_cells (filter is_printf as) = printed_cells as"
  by (induction as) (auto simp: printed_cells_def is_printf_def split: action.splits)

lemma printed_lines_filter: "printed_lines (filter is_printf as) = printed_lines as"
  by (induction as) (auto simp: printed_lines_def is_printf_def split: action.splits)

subsection \<open>Runs without a failing call\<close>



lemma set_for_loop: "set (for_loop n body) = (\<Union>i<n. set (body i))"
  by (auto simp: for_loop_def)

subsection \<open>The copies of a cell\<close>

lemma transfers_bandwidth_cell:
  "transfers (bandwidth_cell drv p2p m i j) =
     replicate repeat (Cuda (
       if i = j then cudaMemcpyPeerAsync (Buffers i) i (BuffersD2D i) i (sizeof_int * numElems) (Stream i)
       else if m = P2P_WRITE then cudaMemcpyPeerAsync (Buffers j) j (Buffers i) i (sizeof_int * numElems) (Stream i)
       else cudaMemcpyPeerAsync (Buffers i) i (Buffers j) j (sizeof_int * numElems) (Stream i)))"
  by (simp add: bandwidth_cell_def transfers_def is_transfer_def for_loop_single Let_def)

lemma transfers_latency_cell:
  "transfers (latency_cell drv p2p m i j) =
     replicate latency_repeat (Cuda (
       if i = j then cudaMemcpyPeerAsync (Buffers i) i (BuffersD2D i) i 1 (Stream i)
       else if m = P2P_WRITE then cudaMemcpyPeerAsync (Buffers j) j (Buffers i) i 1 (Stream i)
       else cudaMemcpyPeerAsync (Buffers i) i (Buffers j) j 1 (Stream i)))"
  by (simp add: latency_cell_def transfers_def is_transfer_def for_loop_single Let_def)

lemma sweep_constants:
  "sizeof_int * numElems = 40000000" "repeat = 5" "latency_repeat = 100"
  by (simp_all add: sizeof_int_def numElems_def repeat_def latency_repeat_def)

subsection \<open>The unidirectional bandwidth matrix\<close>

lemma snd_bandwidth_grid:
  "snd (bandwidth_grid drv time_ms n p2p m) =
     write_rows n (\<lambda>i j. bandwidth_value (time_ms i j) i j) n (replicate (n * n) (Finite 0))"
  by (simp add: bandwidth_grid_def snd_for_state split_beta Let_def write_rows_def write_row_def)

lemma fst_bandwidth_grid:
  "fst (bandwidth_grid drv time_ms n p2p m) =
     for_loop n (\<lambda>i. Cuda (cudaSetDevice i) # for_loop n (bandwidth_cell drv p2p m i))"
  unfolding bandwidth_grid_def
  by (rule fst_for_state) (simp add: split_beta Let_def fst_for_state)

lemma no_printf_bandwidth_cell: "filter is_printf (bandwidth_cell drv p2p m i j) = []"
  by (simp add: bandwidth_cell_def is_printf_def for_loop_single Let_def)

lemma no_printf_bandwidth_grid: "filter is_printf (fst (bandwidth_grid drv time_ms n p2p m)) = []"
  by (simp add: fst_bandwidth_grid filter_for_loop is_printf_def no_printf_bandwidth_cell for_loop_Nil)


lemma length_snd_bandwidth_grid: "length (snd (bandwidth_grid drv time_ms n p2p m)) = n * n"
  by (simp add: snd_bandwidth_grid length_write_rows)

lemma bandwidth_value_eq:
  "bandwidth_value t i j =
     (if t = 0 then NotFinite
      else Finite (real (4 * 10000000 * 5 * (if i = j then 2 else 1)) / 1000000000 / (t / 1000)))"
  by (simp add: bandwidth_value_def fdiv_def numElems_def sizeof_int_def repeat_def Let_def)

lemma printed_outputBandwidthMatrix:
  "printed_cells (outputBandwidthMatrix drv time_ms n p2p m) = snd (bandwidth_grid drv time_ms n p2p m)"
  "printed_lines (outputBandwidthMatrix drv time_ms n p2p m) = n + 1"
proof -
  obtain g bm where gm: "bandwidth_grid drv time_ms n p2p m = (g, bm)"
    by (cases "bandwidth_grid drv time_ms n p2p m")
  have g: "filter is_printf g = []"
    using no_printf_bandwidth_grid [of drv time_ms n p2p m] by (simp add: gm)
  have len: "length bm = n * n"
    using length_snd_bandwidth_grid [of drv time_ms n p2p m] by (simp add: gm)
  have quiet: "\<And>body. (\<And>i. filter is_printf (body i) = []) \<Longrightarrow>
      printed_cells (for_loop n body) = [] \<and> printed_lines (for_loop n body) = 0"
    by (simp add: no_printf_for_loop no_printf_cells no_printf_lines)
  show "printed_cells (outputBandwidthMatrix drv time_ms n p2p m) = snd (bandwidth_grid drv time_ms n p2p m)"
    by (simp add: outputBandwidthMatrix_def gm printed_cells_append printed_cells_Cons
        printed_cells_Nil printed_cells_print_matrix len no_printf_cells g quiet is_printf_def)
  show "printed_lines (outputBandwidthMatrix drv time_ms n p2p m) = n + 1"
    by (simp add: outputBandwidthMatrix_def gm printed_lines_append printed_lines_Cons
        printed_lines_Nil printed_lines_print_matrix no_printf_lines g quiet is_printf_def
        backslash_def)
qed

text \<open>
  Claim C2. The unidirectional sweep fills a matrix of \<open>N * N\<close> cells. Cell \<open>(i, j)\<close>
  holds the bytes transferred, \<open>4 * 10000000 * 5\<close> and twice that on the diagonal, per
  elapsed second (\<open>time_ms / 1000\<close>), expressed in GB/s, that is divided by \<open>10^9\<close>;
  when the measured time is zero the division leaves the finite numbers. The sweep
  prints exactly these \<open>N * N\<close> values, row by row, on \<open>N\<close> lines after the line of
  column indices.
\<close>

theorem unidirectional_bandwidth_matrix:
  "length (snd (bandwidth_grid drv time_ms n p2p m)) = n * n \<and>
   (\<forall>i<n. \<forall>j<n. snd (bandwidth_grid drv time_ms n p2p m) ! (i * n + j) =
      (if time_ms i j = 0 then NotFinite
       else Finite (real (4 * 10000000 * 5 * (if i = j then 2 else 1)) / 1000000000
                      / (time_ms i j / 1000)))) \<and>
   printed_cells (outputBandwidthMatrix drv time_ms n p2p m) =
     snd (bandwidth_grid drv time_ms n p2p m) \<and>
   printed_lines (outputBandwidthMatrix drv time_ms n p2p m) = n + 1"
proof (intro conjI allI impI)
  show "length (snd (bandwidth_grid drv time_ms n p2p m)) = n * n"
    by (rule length_snd_bandwidth_grid)
next
  fix i j
  assume "i < n" "j < n"
  then show "snd (bandwidth_grid drv time_ms n p2p m) ! (i * n + j) =
      (if time_ms i j = 0 then NotFinite
       else Finite (real (4 * 10000000 * 5 * (if i = j then 2 else 1)) / 1000000000
                      / (time_ms i j / 1000)))"
    by (simp only: snd_bandwidth_grid write_rows_cell length_replicate bandwidth_value_eq)
qed (rule printed_outputBandwidthMatrix)+

theorem unidirectional_bandwidth_matrix_witness:
  "(0::nat) < 2 \<and> (1::nat) < 2 \<and>
   snd (bandwidth_grid two_gpus (every_cell 20) 2 True P2P_WRITE) ! (0 * 2 + 1) = Finite 10 \<and>
   snd (bandwidth_grid two_gpus (every_cell 20) 2 True P2P_WRITE) ! (1 * 2 + 1) = Finite 20"
proof -
  have h: "(0::nat) < 2" "(1::nat) < 2" by simp_all
  from unidirectional_bandwidth_matrix [of two_gpus "every_cell 20" 2 True P2P_WRITE]
  have "\<forall>i<2. \<forall>j<2. snd (bandwidth_grid two_gpus (every_cell 20) 2 True P2P_WRITE) ! (i * 2 + j) =
      Finite (real (4 * 10000000 * 5 * (if i = j then 2 else 1)) / 1000000000 / (20 / 1000))"
    by (simp add: every_cell_def)
  from this [rule_format, OF h(1) h(2)] this [rule_format, OF h(2) h(2)] h
  show ?thesis by simp
qed

subsection \<open>The bidirectional bandwidth matrix\<close>

lemma snd_bidirectional_grid:
  "snd (bidirectional_grid drv time_ms n p2p) =
     write_rows n (\<lambda>i j. bidirectional_value (time_ms i j) i j) n (replicate (n * n) (Finite 0))"
  by (simp add: bidirectional_grid_def snd_for_state split_beta Let_def write_rows_def
      write_row_def)

lemma fst_bidirectional_grid:
  "fst (bidirectional_grid drv time_ms n p2p) =
     for_loop n (\<lambda>i. Cuda (cudaSetDevice i) # for_loop n (bidirectional_cell drv p2p i))"
  unfolding bidirectional_grid_def
  by (rule fst_for_state) (simp add: split_beta Let_def fst_for_state)

lemma bidirectional_value_eq:
  "bidirectional_value t i j =
     (if t = 0 then NotFinite
      else Finite (real ((if i = j then 2 else 1) * (2 * (4 * 10000000 * 5))) / 1000000000
                     / (t / 1000)))"
  by (simp add: bidirectional_value_def fdiv_def numElems_def sizeof_int_def repeat_def Let_def)

lemma no_printf_bidirectional_cell: "filter is_printf (bidirectional_cell drv p2p i j) = []"
  by (simp add: bidirectional_cell_def is_printf_def filter_for_loop for_loop_Nil Let_def)

lemma no_printf_bidirectional_grid:
  "filter is_printf (fst (bidirectional_grid drv time_ms n p2p)) = []"
  by (simp add: fst_bidirectional_grid filter_for_loop is_printf_def
      no_printf_bidirectional_cell for_loop_Nil)

lemma printf_outputBidirectionalBandwidthMatrix:
  "filter is_printf (outputBidirectionalBandwidthMatrix drv t n p2p) =
     print_matrix (''   D'' @ backslash @ ''D'') n (snd (bidirectional_grid drv t n p2p))"
  by (simp add: outputBidirectionalBandwidthMatrix_def split_beta no_printf_bidirectional_grid
      is_printf_print_matrix no_printf_for_loop is_printf_simps)

lemma length_snd_bidirectional_grid: "length (snd (bidirectional_grid drv t n p2p)) = n * n"
  by (simp add: snd_bidirectional_grid length_write_rows)

lemma printed_outputBidirectionalBandwidthMatrix:
  "printed_cells (outputBidirectionalBandwidthMatrix drv t n p2p) =
     snd (bidirectional_grid drv t n p2p)"
  "printed_lines (outputBidirectionalBandwidthMatrix drv t n p2p) = n + 1"
proof -
  have d: "''   D'' @ backslash @ ''D'' \<noteq> ''\<newline>''" by (simp add: backslash_def)
  show "printed_cells (outputBidirectionalBandwidthMatrix drv t n p2p) =
     snd (bidirectional_grid drv t n p2p)"
    using printed_cells_filter [of "outputBidirectionalBandwidthMatrix drv t n p2p"]
    by (simp only: printf_outputBidirectionalBandwidthMatrix printed_cells_print_matrix
        length_snd_bidirectional_grid)
  show "printed_lines (outputBidirectionalBandwidthMatrix drv t n p2p) = n + 1"
    using printed_lines_filter [of "outputBidirectionalBandwidthMatrix drv t n p2p"]
    by (simp only: printf_outputBidirectionalBandwidthMatrix printed_lines_print_matrix [OF d]
        Suc_eq_plus1)
qed

text \<open>
  Claim C3. In the bidirectional sweep cell \<open>(i, j)\<close> holds twice the unidirectional
  byte count, \<open>2 * (4 * 10000000 * 5)\<close>, doubled once more on the diagonal, per elapsed
  second (\<open>time_ms / 1000\<close>) and expressed in GB/s; the matrix has \<open>N * N\<close> cells. The
  sweep prints exactly these \<open>N * N\<close> values, row by row, on \<open>N\<close> lines after the line
  of column indices, and prints nothing else.
\<close>

theorem bidirectional_bandwidth_matrix:
  "length (snd (bidirectional_grid drv time_ms n p2p)) = n * n \<and>
   (\<forall>i<n. \<forall>j<n. snd (bidirectional_grid drv time_ms n p2p) ! (i * n + j) =
      (if time_ms i j = 0 then NotFinite
       else Finite (real ((if i = j then 2 else 1) * (2 * (4 * 10000000 * 5))) / 1000000000
                      / (time_ms i j / 1000)))) \<and>
   printed_cells (outputBidirectionalBandwidthMatrix drv time_ms n p2p) =
     snd (bidirectional_grid drv time_ms n p2p) \<and>
   printed_lines (outputBidirectionalBandwidthMatrix drv time_ms n p2p) = n + 1 \<and>
   filter is_printf (outputBidirectionalBandwidthMatrix drv time_ms n p2p) =
     print_matrix (''   D'' @ backslash @ ''D'') n (snd (bidirectional_grid drv time_ms n p2p))"
proof (intro conjI allI impI)
  show "length (snd (bidirectional_grid drv time_ms n p2p)) = n * n"
    by (rule length_snd_bidirectional_grid)
next
  fix i j
  assume "i < n" "j < n"
  then show "snd (bidirectional_grid drv time_ms n p2p) ! (i * n + j) =
      (if time_ms i j = 0 then NotFinite
       else Finite (real ((if i = j then 2 else 1) * (2 * (4 * 10000000 * 5))) / 1000000000
                      / (time_ms i j / 1000)))"
    by (simp only: snd_bidirectional_grid write_rows_cell length_replicate
        bidirectional_value_eq)
qed (rule printed_outputBidirectionalBandwidthMatrix
    printf_outputBidirectionalBandwidthMatrix)+

theorem bidirectional_bandwidth_matrix_witness:
  "(0::nat) < 2 \<and> (1::nat) < 2 \<and>
   snd (bidirectional_grid two_gpus (every_cell 20) 2 True) ! (0 * 2 + 1) = Finite 20 \<and>
   snd (bidirectional_grid two_gpus (every_cell 20) 2 True) ! (1 * 2 + 1) = Finite 40"
proof -
  have h: "(0::nat) < 2" "(1::nat) < 2" by simp_all
  from bidirectional_bandwidth_matrix [of two_gpus "every_cell 20" 2 True]
  have "\<forall>i<2. \<forall>j<2. snd (bidirectional_grid two_gpus (every_cell 20) 2 True) ! (i * 2 + j) =
      Finite (real ((if i = j then 2 else 1) * (2 * (4 * 10000000 * 5))) / 1000000000
                / (20 / 1000))"
    by (simp add: every_cell_def)
  from this [rule_format, OF h(1) h(2)] this [rule_format, OF h(2) h(2)] h
  show ?thesis by simp
qed

subsection \<open>The latency matrices\<close>

lemma snd_latency_grid:
  "snd (latency_grid drv gpu_time_ms cpu_time_ms n p2p m) =
     (write_rows n (\<lambda>i j. latency_value (gpu_time_ms i j)) n (replicate (n * n) (Finite 0)),
      write_rows n (\<lambda>i j. latency_value (cpu_time_ms i j)) n (replicate (n * n) (Finite 0)))"
proof -
  have inner: "\<And>i s. fold (\<lambda>j s. ((fst s)[i * n + j := latency_value (gpu_time_ms i j)],
                              (snd s)[i * n + j := latency_value (cpu_time_ms i j)])) [0..<n] s =
      (write_row n (\<lambda>i j. latency_value (gpu_time_ms i j)) i n (fst s),
       write_row n (\<lambda>i j. latency_value (cpu_time_ms i j)) i n (snd s))"
    unfolding write_row_def by (rule fold_prod)
  have outer: "\<And>s. fold (\<lambda>i s.
        (write_row n (\<lambda>i j. latency_value (gpu_time_ms i j)) i n (fst s),
         write_row n (\<lambda>i j. latency_value (cpu_time_ms i j)) i n (snd s))) [0..<n] s =
      (write_rows n (\<lambda>i j. latency_value (gpu_time_ms i j)) n (fst s),
       write_rows n (\<lambda>i j. latency_value (cpu_time_ms i j)) n (snd s))"
    unfolding write_rows_def by (rule fold_prod)
  show ?thesis
    by (simp add: latency_grid_def snd_for_state split_beta Let_def inner outer)
qed

lemma fst_latency_grid:
  "fst (latency_grid drv gpu_time_ms cpu_time_ms n p2p m) =
     for_loop n (\<lambda>i. Cuda (cudaSetDevice i) # for_loop n (latency_cell drv p2p m i))"
  unfolding latency_grid_def
  by (rule fst_for_state) (simp add: split_beta Let_def fst_for_state)

lemma latency_value_eq: "latency_value t = Finite (t * 1000 / 100)"
  by (simp add: latency_value_def latency_repeat_def)

lemma latency_cells:
  assumes "i < n" "j < n"
  shows "fst (snd (latency_grid drv gpu_time_ms cpu_time_ms n p2p m)) ! (i * n + j) =
           Finite (gpu_time_ms i j * 1000 / 100)"
    and "snd (snd (latency_grid drv gpu_time_ms cpu_time_ms n p2p m)) ! (i * n + j) =
           Finite (cpu_time_ms i j * 1000 / 100)"
  using assms by (simp_all add: snd_latency_grid write_rows_cell latency_value_eq)

lemma timer_view_latency_cell:
  "timer_view (latency_cell drv p2p m i j) =
     [FlagWrite 0, Cuda (delay (Stream i)), Cuda (cudaEventRecord (Start i) (Stream i)),
      Timer sdkResetTimer] @
     transfers (latency_cell drv p2p m i j) @
     [Timer sdkGetTimerValue, Cuda (cudaEventRecord (Stop i) (Stream i)), FlagWrite 1]"
  by (simp add: latency_cell_def timer_view_def transfers_def is_transfer_def is_timer_def
      is_flag_write_def is_enqueue_def stream_of_def for_loop_single Let_def)

lemma no_printf_latency_cell: "filter is_printf (latency_cell drv p2p m i j) = []"
  by (simp add: latency_cell_def is_printf_def for_loop_single Let_def)

lemma no_printf_latency_grid:
  "filter is_printf (fst (latency_grid drv g c n p2p m)) = []"
  by (simp add: fst_latency_grid filter_for_loop is_printf_def no_printf_latency_cell
      for_loop_Nil)

lemma printf_outputLatencyMatrix:
  "filter is_printf (outputLatencyMatrix drv g c n p2p m) =
     (if createTimer drv then [] else [Printf ''Failed to create stop watch\<newline>'' []]) @
     print_matrix ''   GPU'' n (fst (snd (latency_grid drv g c n p2p m))) @
     print_matrix ''\<newline>   CPU'' n (snd (snd (latency_grid drv g c n p2p m)))"
  by (simp add: outputLatencyMatrix_def split_beta no_printf_latency_grid
      is_printf_print_matrix no_printf_for_loop is_printf_simps)

lemma length_latency_grid:
  "length (fst (snd (latency_grid drv g c n p2p m))) = n * n"
  "length (snd (snd (latency_grid drv g c n p2p m))) = n * n"
  by (simp_all add: snd_latency_grid length_write_rows)

lemma printed_outputLatencyMatrix:
  "printed_cells (outputLatencyMatrix drv g c n p2p m) =
     fst (snd (latency_grid drv g c n p2p m)) @ snd (snd (latency_grid drv g c n p2p m))"
proof -
  have "printed_cells (outputLatencyMatrix drv g c n p2p m) =
      printed_cells (filter is_printf (outputLatencyMatrix drv g c n p2p m))"
    by (simp only: printed_cells_filter)
  also have "\<dots> = fst (snd (latency_grid drv g c n p2p m)) @ snd (snd (latency_grid drv g c n p2p m))"
    by (simp add: printf_outputLatencyMatrix printed_cells_append printed_cells_Cons
        printed_cells_Nil printed_cells_print_matrix length_latency_grid)
  finally show ?thesis .
qed

lemma exits_outputLatencyMatrix:
  "filter is_exit (outputLatencyMatrix drv g c n p2p m) =
     (if createTimer drv then [] else [Exit EXIT_FAILURE])"
  by (simp add: outputLatencyMatrix_def split_beta fst_latency_grid print_matrix_def
      filter_for_loop for_loop_Nil is_exit_def latency_cell_def for_loop_single Let_def)

text \<open>
  Claim C7, as the program has it. In the latency sweep every cell enqueues 100 copies of
  1 byte, and both values of a cell are microseconds per copy: the elapsed milliseconds
  times 1000, divided by the repeat count 100. The value from the device events is
  stored in \<open>gpuLatencyMatrix\<close> and printed under the header \<open>GPU\<close>, the value from
  the host timer is stored in \<open>cpuLatencyMatrix\<close> and printed under the header \<open>CPU\<close>;
  the sweep prints these two \<open>N * N\<close> matrices and nothing else when the timer could be
  created, and then it contains no exit; its only exit, with \<open>EXIT_FAILURE\<close>, is the one
  that follows the message of a failed timer creation. The host timer is reset after the start event is recorded and read before the
  stop event is recorded and the flag is set to 1, so it times the enqueueing of the
  copies while the barrier is closed, and the events time their execution after it opens.
  The program enforces neither a sign nor an order on the two measurements: a value is
  positive exactly when its elapsed time is, so both values are positive whenever both
  elapsed times are, and the host value is below the device value exactly when the host
  timer's reading is below the time between the events.
\<close>

theorem latency_matrices:
  "(\<forall>i j. timer_view (latency_cell drv p2p m i j) =
      [FlagWrite 0, Cuda (delay (Stream i)), Cuda (cudaEventRecord (Start i) (Stream i)),
       Timer sdkResetTimer] @
      transfers (latency_cell drv p2p m i j) @
      [Timer sdkGetTimerValue, Cuda (cudaEventRecord (Stop i) (Stream i)), FlagWrite 1] \<and>
      length (transfers (latency_cell drv p2p m i j)) = 100) \<and>
   (\<forall>i<n. \<forall>j<n.
     fst (snd (latency_grid drv gpu_time_ms cpu_time_ms n p2p m)) ! (i * n + j) =
       Finite (gpu_time_ms i j * 1000 / 100) \<and>
     snd (snd (latency_grid drv gpu_time_ms cpu_time_ms n p2p m)) ! (i * n + j) =
       Finite (cpu_time_ms i j * 1000 / 100) \<and>
     (double_less (Finite 0) (fst (snd (latency_grid drv gpu_time_ms cpu_time_ms n p2p m)) ! (i * n + j))
        \<longleftrightarrow> 0 < gpu_time_ms i j) \<and>
     (double_less (Finite 0) (snd (snd (latency_grid drv gpu_time_ms cpu_time_ms n p2p m)) ! (i * n + j))
        \<longleftrightarrow> 0 < cpu_time_ms i j) \<and>
     (double_less (snd (snd (latency_grid drv gpu_time_ms cpu_time_ms n p2p m)) ! (i * n + j))
                  (fst (snd (latency_grid drv gpu_time_ms cpu_time_ms n p2p m)) ! (i * n + j))
        \<longleftrightarrow> cpu_time_ms i j < gpu_time_ms i j)) \<and>
   length (fst (snd (latency_grid drv gpu_time_ms cpu_time_ms n p2p m))) = n * n \<and>
   length (snd (snd (latency_grid drv gpu_time_ms cpu_time_ms n p2p m))) = n * n \<and>
   printed_cells (outputLatencyMatrix drv gpu_time_ms cpu_time_ms n p2p m) =
     fst (snd (latency_grid drv gpu_time_ms cpu_time_ms n p2p m)) @
     snd (snd (latency_grid drv gpu_time_ms cpu_time_ms n p2p m)) \<and>
   filter is_printf (outputLatencyMatrix drv gpu_time_ms cpu_time_ms n p2p m) =
     (if createTimer drv then [] else [Printf ''Failed to create stop watch\<newline>'' []]) @
     print_matrix ''   GPU'' n (fst (snd (latency_grid drv gpu_time_ms cpu_time_ms n p2p m))) @
     print_matrix ''\<newline>   CPU'' n (snd (snd (latency_grid drv gpu_time_ms cpu_time_ms n p2p m))) \<and>
   filter is_exit (outputLatencyMatrix drv gpu_time_ms cpu_time_ms n p2p m) =
     (if createTimer drv then [] else [Exit EXIT_FAILURE])"
proof (intro conjI)
  show "\<forall>i j. timer_view (latency_cell drv p2p m i j) =
      [FlagWrite 0, Cuda (delay (Stream i)), Cuda (cudaEventRecord (Start i) (Stream i)),
       Timer sdkResetTimer] @
      transfers (latency_cell drv p2p m i j) @
      [Timer sdkGetTimerValue, Cuda (cudaEventRecord (Stop i) (Stream i)), FlagWrite 1] \<and>
      length (transfers (latency_cell drv p2p m i j)) = 100"
    by (simp add: transfers_latency_cell latency_repeat_def timer_view_latency_cell)
  show "\<forall>i<n. \<forall>j<n.
     fst (snd (latency_grid drv gpu_time_ms cpu_time_ms n p2p m)) ! (i * n + j) =
       Finite (gpu_time_ms i j * 1000 / 100) \<and>
     snd (snd (latency_grid drv gpu_time_ms cpu_time_ms n p2p m)) ! (i * n + j) =
       Finite (cpu_time_ms i j * 1000 / 100) \<and>
     (double_less (Finite 0) (fst (snd (latency_grid drv gpu_time_ms cpu_time_ms n p2p m)) ! (i * n + j))
        \<longleftrightarrow> 0 < gpu_time_ms i j) \<and>
     (double_less (Finite 0) (snd (snd (latency_grid drv gpu_time_ms cpu_time_ms n p2p m)) ! (i * n + j))
        \<longleftrightarrow> 0 < cpu_time_ms i j) \<and>
     (double_less (snd (snd (latency_grid drv gpu_time_ms cpu_time_ms n p2p m)) ! (i * n + j))
                  (fst (snd (latency_grid drv gpu_time_ms cpu_time_ms n p2p m)) ! (i * n + j))
        \<longleftrightarrow> cpu_time_ms i j < gpu_time_ms i j)"
    by (simp add: latency_cells)
qed (rule length_latency_grid printed_outputLatencyMatrix printf_outputLatencyMatrix
    exits_outputLatencyMatrix)+

theorem latency_matrices_witness:
  "(0::nat) < 1 \<and>
   fst (snd (latency_grid two_gpus (every_cell 3) (every_cell 4) 1 False P2P_WRITE)) ! (0 * 1 + 0) = Finite 30 \<and>
   snd (snd (latency_grid two_gpus (every_cell 3) (every_cell 4) 1 False P2P_WRITE)) ! (0 * 1 + 0) = Finite 40"
proof -
  have h: "(0::nat) < 1" by simp
  from latency_matrices [of two_gpus False P2P_WRITE 1 "every_cell 3" "every_cell 4",
      THEN conjunct2, THEN conjunct1, rule_format, OF h h] h
  show ?thesis by (simp add: every_cell_def)
qed

text \<open>
  The claim as stated fails on both counts. With 2 ms between the events and 1 ms on the
  host timer, the sweep on one device prints the device value 20 and the host value 10:
  the host value is below the device value. With no time between the events the device
  value printed is 0, which is not positive.
\<close>

theorem latency_host_not_above_device_counterexample:
  "printed_cells (outputLatencyMatrix two_gpus (every_cell 2) (every_cell 1) 1 False P2P_WRITE) =
     [Finite 20, Finite 10] \<and>
   double_less (Finite 10) (Finite 20) \<and>
   printed_cells (outputLatencyMatrix two_gpus (every_cell 0) (every_cell 1) 1 False P2P_WRITE) =
     [Finite 0, Finite 10] \<and>
   \<not> double_less (Finite 0) (Finite 0)"
proof -
  have cells: "fst (snd (latency_grid two_gpus (every_cell x) (every_cell y) 1 False P2P_WRITE)) =
        [Finite (x * 1000 / 100)] \<and>
      snd (snd (latency_grid two_gpus (every_cell x) (every_cell y) 1 False P2P_WRITE)) =
        [Finite (y * 1000 / 100)]" for x y
  proof -
    have g: "fst (snd (latency_grid two_gpus (every_cell x) (every_cell y) 1 False P2P_WRITE)) ! (0 * 1 + 0) =
          Finite (every_cell x 0 0 * 1000 / 100)"
      by (rule latency_cells) simp_all
    have c: "snd (snd (latency_grid two_gpus (every_cell x) (every_cell y) 1 False P2P_WRITE)) ! (0 * 1 + 0) =
          Finite (every_cell y 0 0 * 1000 / 100)"
      by (rule latency_cells) simp_all
    have l: "length (fst (snd (latency_grid two_gpus (every_cell x) (every_cell y) 1 False P2P_WRITE))) = 1"
      "length (snd (snd (latency_grid two_gpus (every_cell x) (every_cell y) 1 False P2P_WRITE))) = 1"
      using length_latency_grid [of two_gpus "every_cell x" "every_cell y" 1 False P2P_WRITE]
      by simp_all
    from g c l show ?thesis
      by (auto simp: every_cell_def length_Suc_conv)
  qed
  show ?thesis
    using cells [of 2 1] cells [of 0 1] by (simp add: printed_outputLatencyMatrix)
qed

subsection \<open>The copies of a sweep\<close>

lemma transfers_print_matrix: "transfers (print_matrix h n m) = []"
  by (simp add: transfers_def print_matrix_def filter_for_loop for_loop_Nil is_transfer_def)

lemma transfers_outputBandwidthMatrix:
  "transfers (outputBandwidthMatrix drv t n p2p m) = for_loop n (\<lambda>i. for_loop n (\<lambda>j. transfers (bandwidth_cell drv p2p m i j)))"
  using transfers_print_matrix [of "''   D'' @ backslash @ ''D''" n "snd (bandwidth_grid drv t n p2p m)"]
  by (simp add: outputBandwidthMatrix_def split_beta transfers_def
      fst_bandwidth_grid filter_for_loop for_loop_Nil is_transfer_def)

lemma transfers_outputBidirectionalBandwidthMatrix:
  "transfers (outputBidirectionalBandwidthMatrix drv t n p2p) =
     for_loop n (\<lambda>i. for_loop n (\<lambda>j. transfers (bidirectional_cell drv p2p i j)))"
  using transfers_print_matrix [of "''   D'' @ backslash @ ''D''" n "snd (bidirectional_grid drv t n p2p)"]
  by (simp add: outputBidirectionalBandwidthMatrix_def split_beta transfers_def
      fst_bidirectional_grid filter_for_loop for_loop_Nil is_transfer_def)

lemma transfers_outputLatencyMatrix:
  "transfers (outputLatencyMatrix drv g c n p2p m) = for_loop n (\<lambda>i. for_loop n (\<lambda>j. transfers (latency_cell drv p2p m i j)))"
  using transfers_print_matrix [of "''   GPU''" n "fst (snd (latency_grid drv g c n p2p m))"]
    transfers_print_matrix [of "''\<newline>   CPU''" n "snd (snd (latency_grid drv g c n p2p m))"]
  by (simp add: outputLatencyMatrix_def split_beta transfers_def
      fst_latency_grid filter_for_loop for_loop_Nil is_transfer_def)

lemma transfers_quiet:
  "transfers (checkP2Paccess drv n) = []" "transfers (connectivity_matrix drv n) = []"
  by (simp_all add: transfers_def checkP2Paccess_def connectivity_matrix_def
      connectivity_cell_def filter_for_loop for_loop_Nil is_transfer_def)

lemma transfers_main:
  "transfers (main drv False p2p_read) =
     for_loop (deviceCount drv) (\<lambda>i. for_loop (deviceCount drv) (\<lambda>j.
       transfers (bandwidth_cell drv False P2P_WRITE i j))) @
     for_loop (deviceCount drv) (\<lambda>i. for_loop (deviceCount drv) (\<lambda>j.
       transfers (bandwidth_cell drv True P2P_WRITE i j))) @
     (if p2p_read then for_loop (deviceCount drv) (\<lambda>i. for_loop (deviceCount drv) (\<lambda>j.
       transfers (bandwidth_cell drv True P2P_READ i j)))
      else []) @
     for_loop (deviceCount drv) (\<lambda>i. for_loop (deviceCount drv) (\<lambda>j.
       transfers (bidirectional_cell drv False i j))) @
     for_loop (deviceCount drv) (\<lambda>i. for_loop (deviceCount drv) (\<lambda>j.
       transfers (bidirectional_cell drv True i j))) @
     for_loop (deviceCount drv) (\<lambda>i. for_loop (deviceCount drv) (\<lambda>j.
       transfers (latency_cell drv False P2P_WRITE i j))) @
     for_loop (deviceCount drv) (\<lambda>i. for_loop (deviceCount drv) (\<lambda>j.
       transfers (latency_cell drv True P2P_WRITE i j))) @
     (if p2p_read then for_loop (deviceCount drv) (\<lambda>i. for_loop (deviceCount drv) (\<lambda>j.
       transfers (latency_cell drv True P2P_READ i j)))
      else [])"
proof -
  have t: "transfers (xs @ ys) = transfers xs @ transfers ys" for xs ys
    by (simp add: transfers_def)
  have c: "transfers (a # xs) = (if is_transfer a then [a] else []) @ transfers xs" for a xs
    by (simp add: transfers_def)
  have n: "transfers [] = []" by (simp add: transfers_def)
  have l: "transfers (for_loop k (\<lambda>i. [Cuda (cudaGetDeviceProperties i), cudaCheckError,
      Printf f (args i)])) = []" for k f args
    by (simp add: transfers_def filter_for_loop for_loop_Nil is_transfer_def)
  show ?thesis
    by (simp add: main_def Let_def t c n l transfers_quiet transfers_outputBandwidthMatrix
        transfers_outputBidirectionalBandwidthMatrix transfers_outputLatencyMatrix
        is_transfer_def)
qed

text \<open>
  Claim C5. In a cell off the diagonal (\<open>i \<noteq> j\<close>) the policy \<open>P2P_WRITE\<close> enqueues copies
  from \<open>buffers[i]\<close> on device \<open>i\<close> into \<open>buffers[j]\<close> on device \<open>j\<close>, and \<open>P2P_READ\<close>
  enqueues the copies in the opposite direction, from \<open>buffers[j]\<close> into \<open>buffers[i]\<close>;
  this holds in the unidirectional bandwidth sweep (5 copies of 40000000 bytes) and in
  the latency sweep (100 copies of 1 byte). In a diagonal cell the whole cell is the same
  under both policies, and its copies are the local copy from \<open>buffersD2D[i]\<close> into
  \<open>buffers[i]\<close>. The copies that a sweep enqueues are exactly the copies of its cells
  under the policy the sweep was given, cell after cell in row-major order, and \<open>main\<close>
  runs the unidirectional and the latency sweep under \<open>P2P_WRITE\<close> and, when the read
  policy is chosen, once more under \<open>P2P_READ\<close>.
\<close>

theorem policy_selects_direction:
  "(i \<noteq> j \<longrightarrow>
      transfers (bandwidth_cell drv p2p P2P_WRITE i j) =
        replicate 5 (Cuda (cudaMemcpyPeerAsync (Buffers j) j (Buffers i) i 40000000 (Stream i))) \<and>
      transfers (bandwidth_cell drv p2p P2P_READ i j) =
        replicate 5 (Cuda (cudaMemcpyPeerAsync (Buffers i) i (Buffers j) j 40000000 (Stream i))) \<and>
      transfers (bandwidth_cell drv p2p P2P_READ i j) =
        map reverse_copy (transfers (bandwidth_cell drv p2p P2P_WRITE i j)) \<and>
      transfers (latency_cell drv p2p P2P_WRITE i j) =
        replicate 100 (Cuda (cudaMemcpyPeerAsync (Buffers j) j (Buffers i) i 1 (Stream i))) \<and>
      transfers (latency_cell drv p2p P2P_READ i j) =
        replicate 100 (Cuda (cudaMemcpyPeerAsync (Buffers i) i (Buffers j) j 1 (Stream i))) \<and>
      transfers (latency_cell drv p2p P2P_READ i j) =
        map reverse_copy (transfers (latency_cell drv p2p P2P_WRITE i j))) \<and>
   bandwidth_cell drv p2p P2P_READ i i = bandwidth_cell drv p2p P2P_WRITE i i \<and>
   transfers (bandwidth_cell drv p2p p2p_method i i) =
     replicate 5 (Cuda (cudaMemcpyPeerAsync (Buffers i) i (BuffersD2D i) i 40000000 (Stream i))) \<and>
   latency_cell drv p2p P2P_READ i i = latency_cell drv p2p P2P_WRITE i i \<and>
   transfers (latency_cell drv p2p p2p_method i i) =
     replicate 100 (Cuda (cudaMemcpyPeerAsync (Buffers i) i (BuffersD2D i) i 1 (Stream i))) \<and>
   transfers (outputBandwidthMatrix drv time_ms n p2p p2p_method) =
     for_loop n (\<lambda>i. for_loop n (\<lambda>j. transfers (bandwidth_cell drv p2p p2p_method i j))) \<and>
   transfers (outputLatencyMatrix drv time_ms cpu_time_ms n p2p p2p_method) =
     for_loop n (\<lambda>i. for_loop n (\<lambda>j. transfers (latency_cell drv p2p p2p_method i j))) \<and>
   transfers (main drv False p2p_read) =
     for_loop (deviceCount drv) (\<lambda>i. for_loop (deviceCount drv) (\<lambda>j.
       transfers (bandwidth_cell drv False P2P_WRITE i j))) @
     for_loop (deviceCount drv) (\<lambda>i. for_loop (deviceCount drv) (\<lambda>j.
       transfers (bandwidth_cell drv True P2P_WRITE i j))) @
     (if p2p_read then for_loop (deviceCount drv) (\<lambda>i. for_loop (deviceCount drv) (\<lambda>j.
       transfers (bandwidth_cell drv True P2P_READ i j)))
      else []) @
     for_loop (deviceCount drv) (\<lambda>i. for_loop (deviceCount drv) (\<lambda>j.
       transfers (bidirectional_cell drv False i j))) @
     for_loop (deviceCount drv) (\<lambda>i. for_loop (deviceCount drv) (\<lambda>j.
       transfers (bidirectional_cell drv True i j))) @
     for_loop (deviceCount drv) (\<lambda>i. for_loop (deviceCount drv) (\<lambda>j.
       transfers (latency_cell drv False P2P_WRITE i j))) @
     for_loop (deviceCount drv) (\<lambda>i. for_loop (deviceCount drv) (\<lambda>j.
       transfers (latency_cell drv True P2P_WRITE i j))) @
     (if p2p_read then for_loop (deviceCount drv) (\<lambda>i. for_loop (deviceCount drv) (\<lambda>j.
       transfers (latency_cell drv True P2P_READ i j)))
      else [])"
proof -
  have d: "bandwidth_cell drv p2p P2P_READ i i = bandwidth_cell drv p2p P2P_WRITE i i"
    "latency_cell drv p2p P2P_READ i i = latency_cell drv p2p P2P_WRITE i i"
    by (simp_all add: bandwidth_cell_def latency_cell_def)
  have cells: "(i \<noteq> j \<longrightarrow>
      transfers (bandwidth_cell drv p2p P2P_WRITE i j) =
        replicate 5 (Cuda (cudaMemcpyPeerAsync (Buffers j) j (Buffers i) i 40000000 (Stream i))) \<and>
      transfers (bandwidth_cell drv p2p P2P_READ i j) =
        replicate 5 (Cuda (cudaMemcpyPeerAsync (Buffers i) i (Buffers j) j 40000000 (Stream i))) \<and>
      transfers (bandwidth_cell drv p2p P2P_READ i j) =
        map reverse_copy (transfers (bandwidth_cell drv p2p P2P_WRITE i j)) \<and>
      transfers (latency_cell drv p2p P2P_WRITE i j) =
        replicate 100 (Cuda (cudaMemcpyPeerAsync (Buffers j) j (Buffers i) i 1 (Stream i))) \<and>
      transfers (latency_cell drv p2p P2P_READ i j) =
        replicate 100 (Cuda (cudaMemcpyPeerAsync (Buffers i) i (Buffers j) j 1 (Stream i))) \<and>
      transfers (latency_cell drv p2p P2P_READ i j) =
        map reverse_copy (transfers (latency_cell drv p2p P2P_WRITE i j))) \<and>
   bandwidth_cell drv p2p P2P_READ i i = bandwidth_cell drv p2p P2P_WRITE i i \<and>
   transfers (bandwidth_cell drv p2p p2p_method i i) =
     replicate 5 (Cuda (cudaMemcpyPeerAsync (Buffers i) i (BuffersD2D i) i 40000000 (Stream i))) \<and>
   latency_cell drv p2p P2P_READ i i = latency_cell drv p2p P2P_WRITE i i \<and>
   transfers (latency_cell drv p2p p2p_method i i) =
     replicate 100 (Cuda (cudaMemcpyPeerAsync (Buffers i) i (BuffersD2D i) i 1 (Stream i)))"
    by (simp add: transfers_bandwidth_cell transfers_latency_cell sweep_constants d
        reverse_copy_def)
  from cells transfers_outputBandwidthMatrix [of drv time_ms n p2p p2p_method]
    transfers_outputLatencyMatrix [of drv time_ms cpu_time_ms n p2p p2p_method]
    transfers_main [of drv p2p_read]
  show ?thesis by blast
qed

theorem policy_selects_direction_witness:
  "(0::nat) \<noteq> 1 \<and>
   transfers (bandwidth_cell two_gpus True P2P_READ 0 1) =
     map reverse_copy (transfers (bandwidth_cell two_gpus True P2P_WRITE 0 1)) \<and>
   transfers (bandwidth_cell two_gpus True P2P_READ 0 1) =
     replicate 5 (Cuda (cudaMemcpyPeerAsync (Buffers 0) 0 (Buffers 1) 1 40000000 (Stream 0)))"
proof -
  have h: "(0::nat) \<noteq> 1" by simp
  from policy_selects_direction [of 0 1 two_gpus True] h show ?thesis by blast
qed

subsection \<open>The help flag\<close>

lemma main_help:
  "main drv True r = [Cuda cudaGetDeviceCount, cudaCheckError] @ printHelp @ [Exit 0]"
  by (simp add: main_def)

text \<open>
  Claim C8, as the program has it. \<open>main\<close> asks the runtime for the device count before
  it looks at the command line. With the help flag given and that one query succeeding,
  the process prints the usage text and nothing else and exits with status 0; the device
  count is its only device query, and it allocates nothing and enqueues nothing. When the
  query fails, \<open>cudaCheckError\<close> ends the process with \<open>EXIT_FAILURE\<close> and the usage
  text is not printed.
\<close>

theorem help_run:
  "(\<not> fails 0 \<longrightarrow>
      snd (run fails (main drv True p2p_read)) = Some 0 \<and>
      filter is_printf (fst (run fails (main drv True p2p_read))) = printHelp \<and>
      filter is_device_query (fst (run fails (main drv True p2p_read))) =
        [Cuda cudaGetDeviceCount] \<and>
      filter is_allocation (fst (run fails (main drv True p2p_read))) = [] \<and>
      filter is_enqueue (fst (run fails (main drv True p2p_read))) = []) \<and>
   (fails 0 \<longrightarrow>
      run fails (main drv True p2p_read) =
        ([Cuda cudaGetDeviceCount, cudaCheckError,
          Printf (''Cuda failure %s:%d: '' @ apostrophe @ ''%s'' @ apostrophe @ ''\<newline>'') [],
          Exit 1], Some 1))"
proof (intro conjI impI)
  assume f: "\<not> fails 0"
  have r: "run fails (main drv True p2p_read) =
      ([Cuda cudaGetDeviceCount, cudaCheckError] @ printHelp @ [Exit 0], Some 0)"
    using f by (simp add: main_help run_def printHelp_def)
  show "snd (run fails (main drv True p2p_read)) = Some 0"
    by (simp add: r)
  show "filter is_printf (fst (run fails (main drv True p2p_read))) = printHelp"
    by (simp add: r printHelp_def is_printf_def)
  show "filter is_device_query (fst (run fails (main drv True p2p_read))) =
      [Cuda cudaGetDeviceCount]"
    by (simp add: r printHelp_def is_device_query_def)
  show "filter is_allocation (fst (run fails (main drv True p2p_read))) = []"
    by (simp add: r printHelp_def is_allocation_def)
  show "filter is_enqueue (fst (run fails (main drv True p2p_read))) = []"
    by (simp add: r printHelp_def is_enqueue_def stream_of_def)
next
  assume "fails 0"
  then show "run fails (main drv True p2p_read) =
        ([Cuda cudaGetDeviceCount, cudaCheckError,
          Printf (''Cuda failure %s:%d: '' @ apostrophe @ ''%s'' @ apostrophe @ ''\<newline>'') [],
          Exit 1], Some 1)"
    by (simp add: main_help run_def EXIT_FAILURE_def)
qed

theorem help_run_witness:
  "\<not> never_fails 0 \<and> always_fails 0 \<and>
   snd (run never_fails (main two_gpus True False)) = Some 0 \<and>
   filter is_printf (fst (run never_fails (main two_gpus True False))) = printHelp \<and>
   filter is_device_query (fst (run never_fails (main two_gpus True False))) =
     [Cuda cudaGetDeviceCount] \<and>
   snd (run always_fails (main two_gpus True False)) = Some 1"
proof -
  have h: "\<not> never_fails 0" "always_fails 0"
    by (simp_all add: never_fails_def always_fails_def)
  from help_run [of never_fails two_gpus False, THEN conjunct1, rule_format, OF h(1)]
    help_run [of always_fails two_gpus False, THEN conjunct2, rule_format, OF h(2)] h
  show ?thesis by simp
qed

text \<open>
  The claim as stated fails: a run with the help flag on a machine where every call
  succeeds does perform a device query.
\<close>

theorem help_queries_device_count_counterexample:
  "length (filter is_device_query (fst (run never_fails (main two_gpus True False)))) \<noteq> 0"
  by (simp add: main_help run_def printHelp_def never_fails_def is_device_query_def)

subsection \<open>The diagonal of the connectivity matrix\<close>

lemma printf_connectivity_matrix:
  "filter is_printf (connectivity_matrix drv n) =
     [Printf ''P2P Connectivity Matrix\<newline>'' [],
      Printf (''     D'' @ backslash @ ''D'') []] @
     for_loop n (\<lambda>j. [Printf ''%6d'' [ArgInt (int j)]]) @
     [Printf ''\<newline>'' []] @
     for_loop n (\<lambda>i.
       [Printf (''%6d'' @ tab) [ArgInt (int i)]] @
       for_loop n (\<lambda>j.
         [Printf ''%6d'' [ArgInt (if i = j then 1 else if canAccessPeer drv i j then 1 else 0)]]) @
       [Printf ''\<newline>'' []])"
proof -
  have cell: "filter is_printf (connectivity_cell drv i j) =
      [Printf ''%6d'' [ArgInt (if i = j then 1 else if canAccessPeer drv i j then 1 else 0)]]"
    for i j
    by (simp add: connectivity_cell_def is_printf_simps)
  show ?thesis
    by (simp add: connectivity_matrix_def filter_for_loop is_printf_simps cell)
qed

lemma queries_connectivity_matrix:
  "filter is_device_query (connectivity_matrix drv n) =
     for_loop n (\<lambda>i. for_loop n (\<lambda>j.
       if i = j then [] else [Cuda (cudaDeviceCanAccessPeer i j)]))"
proof -
  have cell: "filter is_device_query (connectivity_cell drv i j) =
      (if i = j then [] else [Cuda (cudaDeviceCanAccessPeer i j)])" for i j
    by (simp add: connectivity_cell_def is_device_query_def)
  show ?thesis
    by (simp add: connectivity_matrix_def filter_for_loop for_loop_Nil is_device_query_def cell)
qed

lemma main_connectivity:
  "\<exists>rest. main drv False p2p_read =
     [Cuda cudaGetDeviceCount, cudaCheckError,
      Printf ''[%s]\<newline>'' [ArgStr sSampleName]] @
     for_loop (deviceCount drv) (\<lambda>i.
       [Cuda (cudaGetDeviceProperties i), cudaCheckError,
        Printf ''Device: %d, %s, pciBusID: %x, pciDeviceID: %x, pciDomainID:%x\<newline>''
          [ArgInt (int i), ArgStr (deviceName drv i), ArgInt (pciBusID drv i),
           ArgInt (pciDeviceID drv i), ArgInt (pciDomainID drv i)]]) @
     checkP2Paccess drv (deviceCount drv) @
     connectivity_matrix drv (deviceCount drv) @ rest"
  by (simp add: main_def Let_def)

text \<open>
  Claim C10. In the connectivity matrix that \<open>main\<close> prints, for any number of devices,
  the cell \<open>(i, i)\<close> consists of printing 1 and nothing else; a row prints 1 in column
  \<open>i\<close> whatever the runtime would answer for the pair \<open>(i, i)\<close>; and the call
  \<open>cudaDeviceCanAccessPeer(&access, i, i)\<close> occurs nowhere in the matrix. The whole
  printed matrix is the title, the line of column indices, and for each device \<open>i\<close> a row
  that starts with \<open>i\<close> and holds, in column \<open>j\<close>, the entry 1 when \<open>j = i\<close> and otherwise
  1 or 0 as the runtime answers for the pair \<open>(i, j)\<close>; the capability queries of the
  matrix are those of the pairs off the diagonal, one each in row-major order; and \<open>main\<close>
  emits this matrix for all the devices the runtime counts, right after the device list
  and the access check.
\<close>

theorem connectivity_diagonal:
  "connectivity_cell drv i i = [Printf ''%6d'' [ArgInt 1]] \<and>
   filter is_printf (for_loop n (connectivity_cell drv i)) =
     map (\<lambda>j. Printf ''%6d'' [ArgInt (if j = i then 1 else if canAccessPeer drv i j then 1 else 0)])
       [0..<n] \<and>
   Cuda (cudaDeviceCanAccessPeer i i) \<notin> set (connectivity_matrix drv n) \<and>
   filter is_printf (connectivity_matrix drv n) =
     [Printf ''P2P Connectivity Matrix\<newline>'' [],
      Printf (''     D'' @ backslash @ ''D'') []] @
     for_loop n (\<lambda>j. [Printf ''%6d'' [ArgInt (int j)]]) @
     [Printf ''\<newline>'' []] @
     for_loop n (\<lambda>i.
       [Printf (''%6d'' @ tab) [ArgInt (int i)]] @
       for_loop n (\<lambda>j.
         [Printf ''%6d'' [ArgInt (if i = j then 1 else if canAccessPeer drv i j then 1 else 0)]]) @
       [Printf ''\<newline>'' []]) \<and>
   filter is_device_query (connectivity_matrix drv n) =
     for_loop n (\<lambda>i. for_loop n (\<lambda>j.
       if i = j then [] else [Cuda (cudaDeviceCanAccessPeer i j)])) \<and>
   (\<exists>rest. main drv False p2p_read =
     [Cuda cudaGetDeviceCount, cudaCheckError,
      Printf ''[%s]\<newline>'' [ArgStr sSampleName]] @
     for_loop (deviceCount drv) (\<lambda>i.
       [Cuda (cudaGetDeviceProperties i), cudaCheckError,
        Printf ''Device: %d, %s, pciBusID: %x, pciDeviceID: %x, pciDomainID:%x\<newline>''
          [ArgInt (int i), ArgStr (deviceName drv i), ArgInt (pciBusID drv i),
           ArgInt (pciDeviceID drv i), ArgInt (pciDomainID drv i)]]) @
     checkP2Paccess drv (deviceCount drv) @
     connectivity_matrix drv (deviceCount drv) @ rest)"
proof -
  have a: "connectivity_cell drv i i = [Printf ''%6d'' [ArgInt 1]]"
    by (simp add: connectivity_cell_def)
  have b: "filter is_printf (for_loop n (connectivity_cell drv i)) =
     map (\<lambda>j. Printf ''%6d'' [ArgInt (if j = i then 1 else if canAccessPeer drv i j then 1 else 0)])
       [0..<n]"
    by (induction n) (auto simp: for_loop_0 for_loop_Suc connectivity_cell_def is_printf_def)
  have c: "Cuda (cudaDeviceCanAccessPeer i i) \<notin> set (connectivity_matrix drv n)"
    by (auto simp: connectivity_matrix_def set_for_loop connectivity_cell_def split: if_splits)
  from a b c printf_connectivity_matrix [of drv n] queries_connectivity_matrix [of drv n]
    main_connectivity [of drv p2p_read]
  show ?thesis by blast
qed

subsection \<open>The report of a successful run\<close>







lemma no_printf_Cons:
  "filter is_printf (a # as) = [] \<longleftrightarrow> \<not> is_printf a \<and> filter is_printf as = []"
  by simp











lemma no_exit_print_matrix: "filter is_exit (print_matrix h n m) = []"
  by (simp add: print_matrix_def filter_for_loop for_loop_Nil is_exit_def)

lemma no_exit_bandwidth_grid: "filter is_exit (fst (bandwidth_grid drv t n p2p m)) = []"
  by (simp add: fst_bandwidth_grid filter_for_loop for_loop_Nil is_exit_def bandwidth_cell_def
      for_loop_single Let_def)



lemma no_exit_outputBandwidthMatrix: "filter is_exit (outputBandwidthMatrix drv t n p2p m) = []"
  by (simp add: outputBandwidthMatrix_def split_beta no_exit_bandwidth_grid
      no_exit_print_matrix filter_for_loop for_loop_Nil is_exit_def)















subsection \<open>The barrier flag\<close>

lemma annotate_append:
  "annotate step s (xs @ ys) = annotate step s xs @ annotate step (foldl step s xs) ys"
  by (induction xs arbitrary: s) simp_all

lemma flag_safe_Nil: "flag_safe f []"
  by (simp add: flag_safe_def)

lemma flag_safe_Cons:
  "flag_safe f (a # as) \<longleftrightarrow> (is_enqueue a \<longrightarrow> f = Some 0) \<and> flag_safe (flag_step f a) as"
  by (simp add: flag_safe_def)

lemma flag_safe_append:
  "flag_safe f (xs @ ys) \<longleftrightarrow> flag_safe f xs \<and> flag_safe (foldl flag_step f xs) ys"
  by (auto simp: flag_safe_def annotate_append)

lemma flag_safe_appendI:
  "flag_safe f xs \<Longrightarrow> (\<And>f'. flag_safe f' ys) \<Longrightarrow> flag_safe f (xs @ ys)"
  by (simp add: flag_safe_append)

lemma flag_safe_for_loop:
  "(\<And>i f. flag_safe f (body i)) \<Longrightarrow> flag_safe f (for_loop n body)"
  by (induction n) (simp_all add: for_loop_0 for_loop_Suc flag_safe_Nil flag_safe_appendI)

lemma flag_safe_no_enqueue: "filter is_enqueue as = [] \<Longrightarrow> flag_safe f as"
  by (induction as arbitrary: f) (simp_all add: flag_safe_Nil flag_safe_Cons split: if_splits)

lemma flag_safe_view:
  "Cuda cudaHostAlloc \<notin> set as \<Longrightarrow> Cuda cudaFreeHost \<notin> set as \<Longrightarrow>
   flag_safe f as = flag_safe f (barrier_view as)"
proof (induction as arbitrary: f)
  case Nil
  then show ?case by (simp add: barrier_view_def)
next
  case (Cons a as)
  then have ih: "\<And>f. flag_safe f as = flag_safe f (barrier_view as)" by simp
  from Cons.prems have a: "a \<noteq> Cuda cudaHostAlloc" "a \<noteq> Cuda cudaFreeHost" by auto
  show ?case
  proof (cases "is_flag_write a \<or> is_enqueue a")
    case True
    then show ?thesis by (simp add: barrier_view_def flag_safe_Cons ih [unfolded barrier_view_def])
  next
    case False
    with a have "flag_step f a = f"
      by (auto simp: flag_step_def is_flag_write_def split: action.splits call.splits)
    with False show ?thesis
      by (simp add: barrier_view_def flag_safe_Cons ih [unfolded barrier_view_def])
  qed
qed

lemma flag_safe_replicate:
  "\<not> is_flag_write x \<Longrightarrow> flag_step (Some 0) x = Some 0 \<Longrightarrow>
   flag_safe (Some 0) (replicate n x @ ys) = flag_safe (Some 0) ys"
  by (induction n) (simp_all add: flag_safe_Cons)

lemma barrier_view_bandwidth_cell:
  "barrier_view (bandwidth_cell drv p2p m i j) =
     [FlagWrite 0, Cuda (delay (Stream i)), Cuda (cudaEventRecord (Start i) (Stream i))] @
     transfers (bandwidth_cell drv p2p m i j) @
     [Cuda (cudaEventRecord (Stop i) (Stream i)), FlagWrite 1]"
  by (simp add: bandwidth_cell_def barrier_view_def transfers_def is_transfer_def
      is_flag_write_def is_enqueue_def stream_of_def for_loop_single Let_def)

lemma barrier_view_latency_cell:
  "barrier_view (latency_cell drv p2p m i j) =
     [FlagWrite 0, Cuda (delay (Stream i)), Cuda (cudaEventRecord (Start i) (Stream i))] @
     transfers (latency_cell drv p2p m i j) @
     [Cuda (cudaEventRecord (Stop i) (Stream i)), FlagWrite 1]"
  by (simp add: latency_cell_def barrier_view_def transfers_def is_transfer_def
      is_flag_write_def is_enqueue_def stream_of_def for_loop_single Let_def)

lemma barrier_view_bidirectional_cell:
  "barrier_view (bidirectional_cell drv p2p i j) =
     [FlagWrite 0, Cuda (delay (Stream0 i)), Cuda (cudaEventRecord (Start i) (Stream0 i)),
      Cuda (cudaStreamWaitEvent (Stream1 j) (Start i))] @
     transfers (bidirectional_cell drv p2p i j) @
     [Cuda (cudaEventRecord (Stop j) (Stream1 j)),
      Cuda (cudaStreamWaitEvent (Stream0 i) (Stop j)),
      Cuda (cudaEventRecord (Stop i) (Stream0 i)), FlagWrite 1]"
  by (simp add: bidirectional_cell_def barrier_view_def transfers_def is_transfer_def
      is_flag_write_def is_enqueue_def stream_of_def filter_for_loop Let_def)

lemma flag_after_for_loop:
  "(\<And>r. foldl flag_step f (body r) = f) \<Longrightarrow> foldl flag_step f (for_loop n body) = f"
  by (induction n) (simp_all add: for_loop_0 for_loop_Suc)

lemma flag_safe_for_loop_same:
  "(\<And>r. flag_safe f (body r)) \<Longrightarrow> (\<And>r. foldl flag_step f (body r) = f) \<Longrightarrow>
   flag_safe f (for_loop n body)"
  by (induction n)
    (simp_all add: for_loop_0 for_loop_Suc flag_safe_Nil flag_safe_append flag_after_for_loop)

lemma transfers_bidirectional_cell:
  "transfers (bidirectional_cell drv p2p i j) =
     (if i = j then
        for_loop repeat (\<lambda>r.
          [Cuda (cudaMemcpyPeerAsync (Buffers i) i (BuffersD2D i) i (sizeof_int * numElems) (Stream0 i)),
           Cuda (cudaMemcpyPeerAsync (BuffersD2D i) i (Buffers i) i (sizeof_int * numElems) (Stream1 i))])
      else
        for_loop repeat (\<lambda>r.
          [Cuda (cudaMemcpyPeerAsync (Buffers i) i (Buffers j) j (sizeof_int * numElems) (Stream1 j)),
           Cuda (cudaMemcpyPeerAsync (Buffers j) j (Buffers i) i (sizeof_int * numElems) (Stream0 i))]))"
  by (simp add: bidirectional_cell_def transfers_def is_transfer_def filter_for_loop Let_def
      for_loop_Nil)

lemma flag_safe_bandwidth_cell: "flag_safe f (bandwidth_cell drv p2p m i j)"
proof -
  have "Cuda cudaHostAlloc \<notin> set (bandwidth_cell drv p2p m i j)"
    "Cuda cudaFreeHost \<notin> set (bandwidth_cell drv p2p m i j)"
    by (simp_all add: bandwidth_cell_def for_loop_single Let_def)
  then have "flag_safe f (bandwidth_cell drv p2p m i j) =
      flag_safe f (barrier_view (bandwidth_cell drv p2p m i j))"
    by (rule flag_safe_view)
  also have "\<dots>"
    by (simp add: barrier_view_bandwidth_cell transfers_bandwidth_cell flag_safe_Cons
        flag_safe_Nil flag_safe_replicate flag_step_def is_enqueue_def stream_of_def
        is_flag_write_def)
  finally show ?thesis .
qed

lemma flag_safe_latency_cell: "flag_safe f (latency_cell drv p2p m i j)"
proof -
  have "Cuda cudaHostAlloc \<notin> set (latency_cell drv p2p m i j)"
    "Cuda cudaFreeHost \<notin> set (latency_cell drv p2p m i j)"
    by (simp_all add: latency_cell_def for_loop_single Let_def)
  then have "flag_safe f (latency_cell drv p2p m i j) =
      flag_safe f (barrier_view (latency_cell drv p2p m i j))"
    by (rule flag_safe_view)
  also have "\<dots>"
    by (simp add: barrier_view_latency_cell transfers_latency_cell flag_safe_Cons
        flag_safe_Nil flag_safe_replicate flag_step_def is_enqueue_def stream_of_def
        is_flag_write_def)
  finally show ?thesis .
qed

lemma flag_safe_bidirectional_cell: "flag_safe f (bidirectional_cell drv p2p i j)"
proof -
  have "Cuda cudaHostAlloc \<notin> set (bidirectional_cell drv p2p i j)"
    "Cuda cudaFreeHost \<notin> set (bidirectional_cell drv p2p i j)"
    by (auto simp: bidirectional_cell_def set_for_loop Let_def)
  then have "flag_safe f (bidirectional_cell drv p2p i j) =
      flag_safe f (barrier_view (bidirectional_cell drv p2p i j))"
    by (rule flag_safe_view)
  also have "\<dots>"
    by (simp add: barrier_view_bidirectional_cell transfers_bidirectional_cell flag_safe_Cons
        flag_safe_Nil flag_safe_append flag_safe_for_loop_same flag_after_for_loop
        flag_step_def is_enqueue_def stream_of_def)
  finally show ?thesis .
qed

lemma flag_safe_exec: "flag_safe f as \<Longrightarrow> flag_safe f (fst (exec fails k err as))"
proof (induction as arbitrary: f k err)
  case Nil
  then show ?case by simp
next
  case (Cons a as)
  from Cons.prems have a: "is_enqueue a \<longrightarrow> f = Some 0" and
    as: "flag_safe (flag_step f a) as"
    by (simp_all add: flag_safe_Cons)
  note ih = Cons.IH [OF as]
  show ?case
  proof (cases a)
    case (Cuda c)
    with a ih [of "Suc k" "err \<or> fails k"] show ?thesis
      by (simp add: split_beta flag_safe_Cons)
  next
    case (Timer t)
    with a ih [of k err] show ?thesis
      by (simp add: split_beta flag_safe_Cons)
  next
    case (FlagWrite v)
    with a ih [of k err] show ?thesis
      by (simp add: split_beta flag_safe_Cons)
  next
    case (Printf s args)
    with a ih [of k err] show ?thesis
      by (simp add: split_beta flag_safe_Cons)
  next
    case cudaCheckError
    with a ih [of k False] show ?thesis
      by (simp add: split_beta flag_safe_Cons flag_safe_Nil is_enqueue_def stream_of_def)
  next
    case (Exit c)
    then show ?thesis
      by (simp add: flag_safe_Cons flag_safe_Nil is_enqueue_def stream_of_def)
  qed
qed

lemma length_annotate: "length (annotate step s as) = length as"
  by (induction as arbitrary: s) simp_all

lemma flag_safe_quiet: "filter is_enqueue as = [] \<Longrightarrow> flag_safe f as = True"
  by (simp add: flag_safe_no_enqueue)

lemma no_enqueue_print_matrix: "filter is_enqueue (print_matrix h n m) = []"
  by (simp add: print_matrix_def filter_for_loop for_loop_Nil is_enqueue_def stream_of_def)

lemma flag_safe_bandwidth_grid: "flag_safe f (fst (bandwidth_grid drv t n p2p m))"
  by (simp add: fst_bandwidth_grid flag_safe_for_loop flag_safe_Cons flag_safe_bandwidth_cell
      is_enqueue_def stream_of_def)

lemma flag_safe_bidirectional_grid: "flag_safe f (fst (bidirectional_grid drv t n p2p))"
  by (simp add: fst_bidirectional_grid flag_safe_for_loop flag_safe_Cons
      flag_safe_bidirectional_cell is_enqueue_def stream_of_def)

lemma flag_safe_latency_grid: "flag_safe f (fst (latency_grid drv g c n p2p m))"
  by (simp add: fst_latency_grid flag_safe_for_loop flag_safe_Cons flag_safe_latency_cell
      is_enqueue_def stream_of_def)

lemma flag_safe_outputBandwidthMatrix: "flag_safe f (outputBandwidthMatrix drv t n p2p m)"
  by (simp add: outputBandwidthMatrix_def split_beta flag_safe_append flag_safe_Cons
      flag_safe_Nil flag_safe_bandwidth_grid flag_safe_quiet no_enqueue_print_matrix
      filter_for_loop for_loop_Nil is_enqueue_def stream_of_def)

lemma flag_safe_outputBidirectionalBandwidthMatrix:
  "flag_safe f (outputBidirectionalBandwidthMatrix drv t n p2p)"
  by (simp add: outputBidirectionalBandwidthMatrix_def split_beta flag_safe_append
      flag_safe_Cons flag_safe_Nil flag_safe_bidirectional_grid flag_safe_quiet
      no_enqueue_print_matrix filter_for_loop for_loop_Nil is_enqueue_def stream_of_def)

lemma flag_safe_outputLatencyMatrix: "flag_safe f (outputLatencyMatrix drv g c n p2p m)"
  by (simp add: outputLatencyMatrix_def split_beta flag_safe_append flag_safe_Cons
      flag_safe_Nil flag_safe_latency_grid flag_safe_quiet no_enqueue_print_matrix
      filter_for_loop for_loop_Nil is_enqueue_def stream_of_def)

lemma no_enqueue_checkP2Paccess: "filter is_enqueue (checkP2Paccess drv n) = []"
  by (simp add: checkP2Paccess_def filter_for_loop for_loop_Nil is_enqueue_def stream_of_def)

lemma no_enqueue_connectivity_matrix: "filter is_enqueue (connectivity_matrix drv n) = []"
  by (simp add: connectivity_matrix_def connectivity_cell_def filter_for_loop for_loop_Nil
      is_enqueue_def stream_of_def)

lemma flag_safe_main: "flag_safe f (main drv help p2p_read)"
  by (simp add: main_def Let_def printHelp_def flag_safe_append flag_safe_Cons flag_safe_Nil
      flag_safe_outputBandwidthMatrix flag_safe_outputBidirectionalBandwidthMatrix
      flag_safe_outputLatencyMatrix flag_safe_quiet no_enqueue_checkP2Paccess
      no_enqueue_connectivity_matrix filter_for_loop for_loop_Nil is_enqueue_def stream_of_def)

lemma flag_safe_run: "flag_safe f as \<Longrightarrow> flag_safe f (fst (run fails as))"
  by (simp add: run_def flag_safe_exec)

lemma exec_complete:
  assumes nf: "\<And>k. \<not> fails k"
  shows "filter is_exit xs = [] \<Longrightarrow> exec fails k False xs = (xs, None)"
proof (induction xs arbitrary: k)
  case Nil
  then show ?case by simp
next
  case (Cons a xs)
  from Cons.prems have xs: "filter is_exit xs = []" and a: "\<not> is_exit a"
    by (auto split: if_splits)
  note ih = Cons.IH [OF xs]
  from a nf [of k] show ?case
    by (cases a) (simp_all add: ih is_exit_def)
qed

text \<open>
  Claim C1. In every cell of the three sweeps the host's dealings with the barrier are, in
  this order: the flag is set to 0, the barrier kernel \<open>delay\<close> is launched, the start
  event is recorded (and, in the bidirectional sweep, the inbound stream is made to wait
  on it), all copies of the cell are enqueued, the stop events are recorded, and only then
  the flag is set to 1. In every run of a sweep and of the whole program, whichever
  runtime calls fail, every operation enqueued on a stream (barrier kernel, event record,
  event wait, copy) is enqueued while the flag reads 0: none is enqueued before the flag
  was reset for its cell or after it was set to 1.
\<close>

theorem barrier_flag_discipline:
  "barrier_view (bandwidth_cell drv p2p p2p_method i j) =
     [FlagWrite 0, Cuda (delay (Stream i)), Cuda (cudaEventRecord (Start i) (Stream i))] @
     transfers (bandwidth_cell drv p2p p2p_method i j) @
     [Cuda (cudaEventRecord (Stop i) (Stream i)), FlagWrite 1] \<and>
   barrier_view (bidirectional_cell drv p2p i j) =
     [FlagWrite 0, Cuda (delay (Stream0 i)), Cuda (cudaEventRecord (Start i) (Stream0 i)),
      Cuda (cudaStreamWaitEvent (Stream1 j) (Start i))] @
     transfers (bidirectional_cell drv p2p i j) @
     [Cuda (cudaEventRecord (Stop j) (Stream1 j)),
      Cuda (cudaStreamWaitEvent (Stream0 i) (Stop j)),
      Cuda (cudaEventRecord (Stop i) (Stream0 i)), FlagWrite 1] \<and>
   barrier_view (latency_cell drv p2p p2p_method i j) =
     [FlagWrite 0, Cuda (delay (Stream i)), Cuda (cudaEventRecord (Start i) (Stream i))] @
     transfers (latency_cell drv p2p p2p_method i j) @
     [Cuda (cudaEventRecord (Stop i) (Stream i)), FlagWrite 1] \<and>
   (\<forall>(a, f) \<in> set (annotate flag_step None
        (fst (run fails (outputBandwidthMatrix drv time_ms n p2p p2p_method)))).
      is_enqueue a \<longrightarrow> f = Some 0) \<and>
   (\<forall>(a, f) \<in> set (annotate flag_step None
        (fst (run fails (outputBidirectionalBandwidthMatrix drv time_ms n p2p)))).
      is_enqueue a \<longrightarrow> f = Some 0) \<and>
   (\<forall>(a, f) \<in> set (annotate flag_step None
        (fst (run fails (outputLatencyMatrix drv time_ms cpu_time_ms n p2p p2p_method)))).
      is_enqueue a \<longrightarrow> f = Some 0) \<and>
   (\<forall>(a, f) \<in> set (annotate flag_step None (fst (run fails (main drv help p2p_read)))).
      is_enqueue a \<longrightarrow> f = Some 0)"
  using flag_safe_run [OF flag_safe_outputBandwidthMatrix, of None fails drv time_ms n p2p p2p_method]
    flag_safe_run [OF flag_safe_outputBidirectionalBandwidthMatrix, of None fails drv time_ms n p2p]
    flag_safe_run [OF flag_safe_outputLatencyMatrix, of None fails drv time_ms cpu_time_ms n p2p p2p_method]
    flag_safe_run [OF flag_safe_main, of None fails drv "help" p2p_read]
  unfolding flag_safe_def
  by (simp only: barrier_view_bandwidth_cell barrier_view_bidirectional_cell
      barrier_view_latency_cell simp_thms)

theorem barrier_flag_discipline_witness:
  "annotate flag_step None
     (fst (run never_fails (outputBandwidthMatrix two_gpus (every_cell 20) 1 False P2P_WRITE))) ! 16
     \<in> set (annotate flag_step None
         (fst (run never_fails (outputBandwidthMatrix two_gpus (every_cell 20) 1 False P2P_WRITE)))) \<and>
   fst (annotate flag_step None
     (fst (run never_fails (outputBandwidthMatrix two_gpus (every_cell 20) 1 False P2P_WRITE))) ! 16)
     = Cuda (delay (Stream 0)) \<and>
   snd (annotate flag_step None
     (fst (run never_fails (outputBandwidthMatrix two_gpus (every_cell 20) 1 False P2P_WRITE))) ! 16)
     = Some 0"
proof -
  let ?sweep = "outputBandwidthMatrix two_gpus (every_cell 20) 1 False P2P_WRITE"
  let ?t = "annotate flag_step None (fst (run never_fails ?sweep))"
  have nf: "\<And>k. \<not> never_fails k" by (simp add: never_fails_def)
  have r: "run never_fails ?sweep = (?sweep, None)"
    unfolding run_def by (rule exec_complete [OF nf no_exit_outputBandwidthMatrix])
  have t: "?t = annotate flag_step None ?sweep"
    by (simp only: r fst_conv)
  have g: "fst (bandwidth_grid two_gpus (every_cell 20) (Suc 0) False P2P_WRITE) =
      Cuda (cudaSetDevice 0) # bandwidth_cell two_gpus False P2P_WRITE 0 0"
    by (simp add: fst_bandwidth_grid for_loop_def)
  have len: "16 < length ?t"
    unfolding t by (simp add: length_annotate outputBandwidthMatrix_def split_beta g for_loop_def)
  have a: "fst (?t ! 16) = Cuda (delay (Stream 0))"
    unfolding t
    by (simp add: outputBandwidthMatrix_def split_beta g for_loop_def bandwidth_cell_def)
  from len have mem: "?t ! 16 \<in> set ?t" by (rule nth_mem)
  have e: "is_enqueue (fst (?t ! 16))"
    unfolding a by (simp add: is_enqueue_def stream_of_def)
  from barrier_flag_discipline [of two_gpus False P2P_WRITE 0 0 never_fails "every_cell 20" 1]
  have "\<forall>(a, f) \<in> set ?t. is_enqueue a \<longrightarrow> f = Some 0" by blast
  with mem e have "snd (?t ! 16) = Some 0" by (auto simp: split_beta)
  with mem a show ?thesis by blast
qed

subsection \<open>The two streams of a bidirectional cell\<close>

lemma length_for_loop_pair: "length (for_loop n (\<lambda>r. [a, b])) = 2 * n"
  by (induction n) (simp_all add: for_loop_0 for_loop_Suc)

lemma enqueue_view_bidirectional_cell:
  "filter is_enqueue (bidirectional_cell drv p2p i j) =
     [Cuda (delay (Stream0 i)), Cuda (cudaEventRecord (Start i) (Stream0 i)),
      Cuda (cudaStreamWaitEvent (Stream1 j) (Start i))] @
     transfers (bidirectional_cell drv p2p i j) @
     [Cuda (cudaEventRecord (Stop j) (Stream1 j)),
      Cuda (cudaStreamWaitEvent (Stream0 i) (Stop j)),
      Cuda (cudaEventRecord (Stop i) (Stream0 i))]"
  by (simp add: bidirectional_cell_def transfers_def is_transfer_def
      is_enqueue_def stream_of_def filter_for_loop Let_def)

lemma elapsed_bidirectional_cell:
  "filter is_elapsed_time (bidirectional_cell drv p2p i j) =
     [Cuda (cudaEventElapsedTime (Start i) (Stop i))]"
  by (simp add: bidirectional_cell_def is_elapsed_time_def filter_for_loop for_loop_Nil Let_def)

lemma transfers_bidirectional_streams:
  "a \<in> set (transfers (bidirectional_cell drv p2p i j)) \<Longrightarrow>
   is_transfer a \<and> (stream_of a = Some (Stream0 i) \<or> stream_of a = Some (Stream1 j))"
  by (auto simp: transfers_bidirectional_cell set_for_loop is_transfer_def stream_of_def
      split: if_splits)

lemma length_transfers_bidirectional_cell:
  "length (transfers (bidirectional_cell drv p2p i j)) = 10"
  by (simp add: transfers_bidirectional_cell length_for_loop_pair repeat_def)

lemma in_order_one_by_one: "in_order ops one_by_one_begin one_by_one_end"
  by (auto simp: in_order_def one_by_one_begin_def one_by_one_end_def)

lemma interval_spans_transfers:
  assumes r: "in_order (filter is_enqueue (bidirectional_cell drv p2p i j)) B E"
    and k: "k < length (filter is_enqueue (bidirectional_cell drv p2p i j))"
    and t: "is_transfer (filter is_enqueue (bidirectional_cell drv p2p i j) ! k)"
  shows "E 1 \<le> B k \<and> E k \<le> E 15"
proof -
  define T where "T = transfers (bidirectional_cell drv p2p i j)"
  define ops where "ops = filter is_enqueue (bidirectional_cell drv p2p i j)"
  have lenT: "length T = 10"
    by (simp add: T_def length_transfers_bidirectional_cell)
  have ops: "ops =
     [Cuda (delay (Stream0 i)), Cuda (cudaEventRecord (Start i) (Stream0 i)),
      Cuda (cudaStreamWaitEvent (Stream1 j) (Start i))] @ T @
     [Cuda (cudaEventRecord (Stop j) (Stream1 j)),
      Cuda (cudaStreamWaitEvent (Stream0 i) (Stop j)),
      Cuda (cudaEventRecord (Stop i) (Stream0 i))]"
    by (simp add: ops_def T_def enqueue_view_bidirectional_cell)
  have len: "length ops = 16" by (simp add: ops lenT)
  have n1: "ops ! 1 = Cuda (cudaEventRecord (Start i) (Stream0 i))"
    and n2: "ops ! 2 = Cuda (cudaStreamWaitEvent (Stream1 j) (Start i))"
    by (simp_all add: ops)
  have n1': "ops ! Suc 0 = Cuda (cudaEventRecord (Start i) (Stream0 i))"
    using n1 by simp
  have n13: "ops ! 13 = Cuda (cudaEventRecord (Stop j) (Stream1 j))"
    and n14: "ops ! 14 = Cuda (cudaStreamWaitEvent (Stream0 i) (Stop j))"
    and n15: "ops ! 15 = Cuda (cudaEventRecord (Stop i) (Stream0 i))"
    by (simp_all add: ops nth_append lenT)
  have mid: "ops ! k = T ! (k - 3)" if "3 \<le> k" "k < 13" for k
  proof -
    define pre where "pre = [Cuda (delay (Stream0 i)), Cuda (cudaEventRecord (Start i) (Stream0 i)),
      Cuda (cudaStreamWaitEvent (Stream1 j) (Start i))]"
    define post where "post = [Cuda (cudaEventRecord (Stop j) (Stream1 j)),
      Cuda (cudaStreamWaitEvent (Stream0 i) (Stop j)),
      Cuda (cudaEventRecord (Stop i) (Stream0 i))]"
    have lp: "length pre = 3" by (simp add: pre_def)
    from that(1) obtain m where k3: "k = 3 + m" by (auto simp: le_iff_add)
    with that(2) lp have m: "k = length pre + m" "m < 10" by simp_all
    have "ops = pre @ (T @ post)" by (simp add: ops pre_def post_def)
    then have "ops ! k = (T @ post) ! m" by (simp only: m nth_append_length_plus)
    also have "\<dots> = T ! m" using m lenT by (simp add: nth_append)
    finally show ?thesis using m lp by simp
  qed
  have kk: "3 \<le> k \<and> k < 13"
  proof (rule ccontr)
    assume "\<not> (3 \<le> k \<and> k < 13)"
    with k len have "k \<in> {0, 1, 2, 13, 14, 15}" by (auto simp: ops_def [symmetric])
    moreover have "ops ! 0 = Cuda (delay (Stream0 i))" by (simp add: ops)
    ultimately have "\<not> is_transfer (ops ! k)"
      using n1 n2 n13 n14 n15 by (auto simp: is_transfer_def)
    with t show False by (simp add: ops_def)
  qed
  then have "k - 3 < length T" using lenT by arith
  then have "T ! (k - 3) \<in> set T" by (rule nth_mem)
  then have st: "stream_of (ops ! k) = Some (Stream0 i) \<or> stream_of (ops ! k) = Some (Stream1 j)"
    using transfers_bidirectional_streams [of "T ! (k - 3)" drv p2p i j] kk
    by (simp add: mid T_def)
  from r have ra: "\<And>k. k < 16 \<Longrightarrow> B k \<le> E k"
    and rb: "\<And>k k'. k < 16 \<Longrightarrow> k' < k \<Longrightarrow> stream_of (ops ! k') = stream_of (ops ! k) \<Longrightarrow> E k' \<le> B k"
    and rc: "\<And>k k' s e. k < 16 \<Longrightarrow> k' < k \<Longrightarrow> ops ! k = Cuda (cudaStreamWaitEvent s e) \<Longrightarrow>
       is_record_of e (ops ! k') \<Longrightarrow>
       (\<forall>k''. k' < k'' \<and> k'' < k \<longrightarrow> \<not> is_record_of e (ops ! k'')) \<Longrightarrow> E k' \<le> E k"
    unfolding in_order_def ops_def [symmetric] len by blast+
  have e12: "E 1 \<le> E 2"
    by (rule rc [of 2 1 "Stream1 j" "Start i"]) (auto simp: n1' n2 is_record_of_def)
  have e1314: "E 13 \<le> E 14"
    by (rule rc [of 14 13 "Stream0 i" "Stop j"]) (auto simp: n13 n14 is_record_of_def)
  have e1415: "E 14 \<le> B 15"
    by (rule rb) (simp_all add: n14 n15 stream_of_def)
  have b15: "B 15 \<le> E 15" "B 13 \<le> E 13" by (rule ra, simp)+
  from st show ?thesis
  proof
    assume s0: "stream_of (ops ! k) = Some (Stream0 i)"
    have "E 1 \<le> B k"
      by (rule rb) (use kk s0 in \<open>simp_all add: n1' stream_of_def\<close>)
    moreover have "E k \<le> B 15"
      by (rule rb) (use kk s0 in \<open>simp_all add: n15 stream_of_def\<close>)
    ultimately show ?thesis using b15 by simp
  next
    assume s1: "stream_of (ops ! k) = Some (Stream1 j)"
    have "E 2 \<le> B k"
      by (rule rb) (use kk s1 in \<open>simp_all add: n2 stream_of_def\<close>)
    moreover have "E k \<le> B 13"
      by (rule rb) (use kk s1 in \<open>simp_all add: n13 stream_of_def\<close>)
    ultimately show ?thesis using e12 e1314 e1415 b15 by simp
  qed
qed

text \<open>
  Claim C4. In every cell of the bidirectional sweep the operations are enqueued in this
  order: the barrier kernel and the record of \<open>start[i]\<close> on the source's stream
  \<open>stream0[i]\<close> (and on no other stream); a wait of the destination's stream
  \<open>stream1[j]\<close> on \<open>start[i]\<close>; the copies, all of them on \<open>stream0[i]\<close> or
  \<open>stream1[j]\<close>; the record of \<open>stop[j]\<close> on \<open>stream1[j]\<close>; a wait of
  \<open>stream0[i]\<close> on \<open>stop[j]\<close>; and last the record of \<open>stop[i]\<close> on
  \<open>stream0[i]\<close>. The elapsed time is read between \<open>start[i]\<close> and \<open>stop[i]\<close>.
  Hence, in every schedule that keeps stream order and event waits, every copy of the
  cell, in either direction, begins after the start event (position 1) and ends before
  the last stop event (position 15).
\<close>

theorem bidirectional_ordering:
  "filter is_enqueue (bidirectional_cell drv p2p i j) =
     [Cuda (delay (Stream0 i)), Cuda (cudaEventRecord (Start i) (Stream0 i)),
      Cuda (cudaStreamWaitEvent (Stream1 j) (Start i))] @
     transfers (bidirectional_cell drv p2p i j) @
     [Cuda (cudaEventRecord (Stop j) (Stream1 j)),
      Cuda (cudaStreamWaitEvent (Stream0 i) (Stop j)),
      Cuda (cudaEventRecord (Stop i) (Stream0 i))] \<and>
   transfers (bidirectional_cell drv p2p i j) =
     (if i = j then
        for_loop 5 (\<lambda>r.
          [Cuda (cudaMemcpyPeerAsync (Buffers i) i (BuffersD2D i) i 40000000 (Stream0 i)),
           Cuda (cudaMemcpyPeerAsync (BuffersD2D i) i (Buffers i) i 40000000 (Stream1 i))])
      else
        for_loop 5 (\<lambda>r.
          [Cuda (cudaMemcpyPeerAsync (Buffers i) i (Buffers j) j 40000000 (Stream1 j)),
           Cuda (cudaMemcpyPeerAsync (Buffers j) j (Buffers i) i 40000000 (Stream0 i))])) \<and>
   length (filter is_enqueue (bidirectional_cell drv p2p i j)) = 16 \<and>
   filter is_elapsed_time (bidirectional_cell drv p2p i j) =
     [Cuda (cudaEventElapsedTime (Start i) (Stop i))] \<and>
   (in_order (filter is_enqueue (bidirectional_cell drv p2p i j)) B E \<longrightarrow>
      (\<forall>k < length (filter is_enqueue (bidirectional_cell drv p2p i j)).
         is_transfer (filter is_enqueue (bidirectional_cell drv p2p i j) ! k) \<longrightarrow>
           E 1 \<le> B k \<and> E k \<le> E 15))"
proof (intro conjI impI allI)
  show "filter is_enqueue (bidirectional_cell drv p2p i j) =
     [Cuda (delay (Stream0 i)), Cuda (cudaEventRecord (Start i) (Stream0 i)),
      Cuda (cudaStreamWaitEvent (Stream1 j) (Start i))] @
     transfers (bidirectional_cell drv p2p i j) @
     [Cuda (cudaEventRecord (Stop j) (Stream1 j)),
      Cuda (cudaStreamWaitEvent (Stream0 i) (Stop j)),
      Cuda (cudaEventRecord (Stop i) (Stream0 i))]"
    by (rule enqueue_view_bidirectional_cell)
  show "transfers (bidirectional_cell drv p2p i j) =
     (if i = j then
        for_loop 5 (\<lambda>r.
          [Cuda (cudaMemcpyPeerAsync (Buffers i) i (BuffersD2D i) i 40000000 (Stream0 i)),
           Cuda (cudaMemcpyPeerAsync (BuffersD2D i) i (Buffers i) i 40000000 (Stream1 i))])
      else
        for_loop 5 (\<lambda>r.
          [Cuda (cudaMemcpyPeerAsync (Buffers i) i (Buffers j) j 40000000 (Stream1 j)),
           Cuda (cudaMemcpyPeerAsync (Buffers j) j (Buffers i) i 40000000 (Stream0 i))]))"
    by (simp only: transfers_bidirectional_cell sweep_constants)
  show "length (filter is_enqueue (bidirectional_cell drv p2p i j)) = 16"
    by (simp add: enqueue_view_bidirectional_cell length_transfers_bidirectional_cell)
  show "filter is_elapsed_time (bidirectional_cell drv p2p i j) =
     [Cuda (cudaEventElapsedTime (Start i) (Stop i))]"
    by (rule elapsed_bidirectional_cell)
next
  fix k
  assume "in_order (filter is_enqueue (bidirectional_cell drv p2p i j)) B E"
    "k < length (filter is_enqueue (bidirectional_cell drv p2p i j))"
    "is_transfer (filter is_enqueue (bidirectional_cell drv p2p i j) ! k)"
  then have "E 1 \<le> B k \<and> E k \<le> E 15" by (rule interval_spans_transfers)
  then show "E 1 \<le> B k" "E k \<le> E 15" by simp_all
qed

theorem bidirectional_ordering_witness:
  "in_order (filter is_enqueue (bidirectional_cell two_gpus True 0 1))
     one_by_one_begin one_by_one_end \<and>
   3 < length (filter is_enqueue (bidirectional_cell two_gpus True 0 1)) \<and>
   is_transfer (filter is_enqueue (bidirectional_cell two_gpus True 0 1) ! 3) \<and>
   one_by_one_end 1 \<le> one_by_one_begin 3 \<and> one_by_one_end 3 \<le> one_by_one_end 15"
proof -
  let ?ops = "filter is_enqueue (bidirectional_cell two_gpus True 0 1)"
  note inst = bidirectional_ordering [of two_gpus True 0 1 one_by_one_begin one_by_one_end]
  have o: "in_order ?ops one_by_one_begin one_by_one_end"
    by (rule in_order_one_by_one)
  have l: "3 < length ?ops"
    using inst by simp
  have "?ops ! 3 = transfers (bidirectional_cell two_gpus True 0 1) ! 0"
    by (simp add: enqueue_view_bidirectional_cell nth_append
        length_transfers_bidirectional_cell)
  also have "\<dots> = Cuda (cudaMemcpyPeerAsync (Buffers 0) 0 (Buffers 1) 1 40000000 (Stream1 1))"
    by (simp add: transfers_bidirectional_cell sweep_constants for_loop_def upt_conv_Cons)
  finally have t: "is_transfer (?ops ! 3)"
    by (simp add: is_transfer_def)
  from inst have "in_order ?ops one_by_one_begin one_by_one_end \<longrightarrow>
      (\<forall>k < length ?ops. is_transfer (?ops ! k) \<longrightarrow>
         one_by_one_end 1 \<le> one_by_one_begin k \<and> one_by_one_end k \<le> one_by_one_end 15)"
    by blast
  with o l t have "one_by_one_end 1 \<le> one_by_one_begin 3 \<and> one_by_one_end 3 \<le> one_by_one_end 15"
    by blast
  with o l t show ?thesis by blast
qed

subsection \<open>Peer access around a cell\<close>

lemma peer_after_Nil: "peer_after st [] = st"
  by (simp add: peer_after_def)

lemma peer_after_Cons: "peer_after st (a # as) = peer_after (peer_step st a) as"
  by (simp add: peer_after_def)

lemma peer_after_append: "peer_after st (xs @ ys) = peer_after (peer_after st xs) ys"
  by (simp add: peer_after_def)

lemma peer_step_quiet: "\<not> is_peer_call a \<Longrightarrow> snd (peer_step st a) = snd st"
  by (auto simp: peer_step_def is_peer_call_def split: action.splits call.splits)

lemma peer_step_still: "\<not> is_peer_call a \<Longrightarrow> \<not> is_set_device a \<Longrightarrow> peer_step st a = st"
  by (auto simp: peer_step_def is_peer_call_def is_set_device_def split: action.splits call.splits)

lemma peer_after_quiet: "filter is_peer_call xs = [] \<Longrightarrow> snd (peer_after st xs) = snd st"
  by (induction xs arbitrary: st)
    (simp_all add: peer_after_Nil peer_after_Cons peer_step_quiet split: if_splits)

lemma peer_after_still:
  "filter is_peer_call xs = [] \<Longrightarrow> filter is_set_device xs = [] \<Longrightarrow> peer_after st xs = st"
  by (induction xs arbitrary: st)
    (simp_all add: peer_after_Nil peer_after_Cons peer_step_still split: if_splits)

lemma annotate_quiet:
  "filter is_peer_call xs = [] \<Longrightarrow> (a, st') \<in> set (annotate peer_step st xs) \<Longrightarrow> snd st' = snd st"
proof (induction xs arbitrary: st)
  case Nil
  then show ?case by simp
next
  case (Cons x xs)
  from Cons.prems(1) have q: "\<not> is_peer_call x" "filter is_peer_call xs = []"
    by (auto split: if_splits)
  from Cons.prems(2) consider "(a, st') = (x, st)"
    | "(a, st') \<in> set (annotate peer_step (peer_step st x) xs)"
    by auto
  then show ?case
  proof cases
    case 1
    then show ?thesis by simp
  next
    case 2
    from Cons.IH [OF q(2) 2] show ?thesis
      by (simp add: peer_step_quiet [OF q(1)])
  qed
qed

lemma annotate_none:
  "filter P xs = [] \<Longrightarrow> (a, st') \<in> set (annotate step st xs) \<Longrightarrow> \<not> P a"
  by (induction xs arbitrary: st) (auto split: if_splits)

lemma peer_bracket:
  assumes "filter is_protocol pre = []" "filter is_peer_call mid = []"
    "filter is_protocol post = []"
  shows "\<forall>(a, st') \<in> set (annotate peer_step st (pre @ mid @ post)).
           is_protocol a \<longrightarrow> snd st' = snd (peer_after st pre)"
  using assms
  by (auto simp: annotate_append peer_after_def [symmetric]
      dest: annotate_none annotate_quiet)

lemma bandwidth_cell_bracket:
  "bandwidth_cell drv p2p m i j =
     (if p2p then
        Cuda (cudaDeviceCanAccessPeer i j) #
        (if canAccessPeer drv i j then
           [Cuda (cudaDeviceEnablePeerAccess j), cudaCheckError,
            Cuda (cudaSetDevice j), cudaCheckError,
            Cuda (cudaDeviceEnablePeerAccess i), cudaCheckError,
            Cuda (cudaSetDevice i), cudaCheckError]
         else [])
      else []) @
     bandwidth_cell drv False m i j @
     (if p2p \<and> canAccessPeer drv i j then
        [Cuda (cudaDeviceDisablePeerAccess j),
         Cuda (cudaSetDevice j),
         Cuda (cudaDeviceDisablePeerAccess i),
         Cuda (cudaSetDevice i), cudaCheckError]
      else [])"
  by (simp add: bandwidth_cell_def Let_def)

lemma latency_cell_bracket:
  "latency_cell drv p2p m i j =
     (if p2p then
        Cuda (cudaDeviceCanAccessPeer i j) #
        (if canAccessPeer drv i j then
           [Cuda (cudaDeviceEnablePeerAccess j), cudaCheckError,
            Cuda (cudaSetDevice j),
            Cuda (cudaDeviceEnablePeerAccess i),
            Cuda (cudaSetDevice i), cudaCheckError]
         else [])
      else []) @
     latency_cell drv False m i j @
     (if p2p \<and> canAccessPeer drv i j then
        [Cuda (cudaDeviceDisablePeerAccess j),
         Cuda (cudaSetDevice j),
         Cuda (cudaDeviceDisablePeerAccess i),
         Cuda (cudaSetDevice i), cudaCheckError]
      else [])"
  by (simp add: latency_cell_def Let_def)

lemma bidirectional_cell_bracket:
  "bidirectional_cell drv p2p i j =
     (if p2p then
        Cuda (cudaDeviceCanAccessPeer i j) #
        (if canAccessPeer drv i j then
           [Cuda (cudaSetDevice i),
            Cuda (cudaDeviceEnablePeerAccess j), cudaCheckError,
            Cuda (cudaSetDevice j),
            Cuda (cudaDeviceEnablePeerAccess i), cudaCheckError]
         else [])
      else []) @
     bidirectional_cell drv False i j @
     (if p2p \<and> canAccessPeer drv i j then
        [Cuda (cudaSetDevice i),
         Cuda (cudaDeviceDisablePeerAccess j),
         Cuda (cudaSetDevice j),
         Cuda (cudaDeviceDisablePeerAccess i)]
      else [])"
  by (simp add: bidirectional_cell_def Let_def)

lemma quiet_bandwidth_cell:
  "filter is_peer_call (bandwidth_cell drv False m i j) = []"
  "filter is_set_device (bandwidth_cell drv False m i j) = []"
  by (simp_all add: bandwidth_cell_def is_peer_call_def is_set_device_def for_loop_single Let_def)

lemma quiet_latency_cell:
  "filter is_peer_call (latency_cell drv False m i j) = []"
  "filter is_set_device (latency_cell drv False m i j) = []"
  by (simp_all add: latency_cell_def is_peer_call_def is_set_device_def for_loop_single Let_def)

lemma quiet_bidirectional_cell:
  "filter is_peer_call (bidirectional_cell drv False i j) = []"
  by (simp add: bidirectional_cell_def is_peer_call_def filter_for_loop for_loop_Nil Let_def)

lemma peer_after_for_loop_still:
  "(\<And>r. peer_after st (body r) = st) \<Longrightarrow> peer_after st (for_loop n body) = st"
  by (induction n) (simp_all add: for_loop_0 for_loop_Suc peer_after_Nil peer_after_append)

lemma device_after_bidirectional_cell:
  "peer_after st (bidirectional_cell drv False i j) = (i, snd st)"
  by (simp add: bidirectional_cell_def Let_def peer_after_append peer_after_Cons peer_after_Nil
      peer_after_for_loop_still peer_step_def)

lemma bracket_cell:
  assumes cell: "cell = pre @ mid @ post"
    and "filter is_protocol pre = []" "filter is_peer_call mid = []"
      "filter is_protocol post = []"
    and P: "snd (peer_after st pre) = P"
  shows "\<forall>(a, st') \<in> set (annotate peer_step st cell). is_protocol a \<longrightarrow> snd st' = P"
  using peer_bracket [OF assms(2-4), of st] unfolding cell P .

lemma not_protocol:
  "\<not> is_protocol (Cuda (cudaDeviceCanAccessPeer i j))"
  "\<not> is_protocol (Cuda (cudaDeviceEnablePeerAccess j))"
  "\<not> is_protocol (Cuda (cudaDeviceDisablePeerAccess j))"
  "\<not> is_protocol (Cuda (cudaSetDevice j))"
  "\<not> is_protocol cudaCheckError"
  by (simp_all add: is_protocol_def is_enqueue_def stream_of_def)

lemma bandwidth_cell_enabled:
  "\<forall>(a, st') \<in> set (annotate peer_step (i, {}) (bandwidth_cell drv p2p m i j)).
     is_protocol a \<longrightarrow>
     snd st' = (if p2p \<and> canAccessPeer drv i j then {(i, j), (j, i)} else {})"
  by (rule bracket_cell [OF bandwidth_cell_bracket])
    (auto simp: quiet_bandwidth_cell not_protocol peer_after_Cons peer_after_Nil peer_step_def)

lemma latency_cell_enabled:
  "\<forall>(a, st') \<in> set (annotate peer_step (i, {}) (latency_cell drv p2p m i j)).
     is_protocol a \<longrightarrow>
     snd st' = (if p2p \<and> canAccessPeer drv i j then {(i, j), (j, i)} else {})"
  by (rule bracket_cell [OF latency_cell_bracket])
    (auto simp: quiet_latency_cell not_protocol peer_after_Cons peer_after_Nil peer_step_def)

lemma bidirectional_cell_enabled:
  "\<forall>(a, st') \<in> set (annotate peer_step (c, {}) (bidirectional_cell drv p2p i j)).
     is_protocol a \<longrightarrow>
     snd st' = (if p2p \<and> canAccessPeer drv i j then {(i, j), (j, i)} else {})"
  by (rule bracket_cell [OF bidirectional_cell_bracket])
    (auto simp: quiet_bidirectional_cell not_protocol peer_after_Cons peer_after_Nil
      peer_step_def)

lemma bandwidth_cell_after: "peer_after (i, {}) (bandwidth_cell drv p2p m i j) = (i, {})"
  by (subst bandwidth_cell_bracket)
    (auto simp: peer_after_append peer_after_Cons peer_after_Nil peer_after_still
      quiet_bandwidth_cell peer_step_def)

lemma latency_cell_after: "peer_after (i, {}) (latency_cell drv p2p m i j) = (i, {})"
  by (subst latency_cell_bracket)
    (auto simp: peer_after_append peer_after_Cons peer_after_Nil peer_after_still
      quiet_latency_cell peer_step_def)

lemma bidirectional_cell_after:
  "snd (peer_after (c, {}) (bidirectional_cell drv p2p i j)) = {}"
  by (subst bidirectional_cell_bracket)
    (auto simp: peer_after_append peer_after_Cons peer_after_Nil
      device_after_bidirectional_cell peer_step_def)

lemma peer_calls_bandwidth_cell:
  "filter is_peer_call (bandwidth_cell drv p2p m i j) =
     (if p2p \<and> canAccessPeer drv i j then
        [Cuda (cudaDeviceEnablePeerAccess j), Cuda (cudaDeviceEnablePeerAccess i),
         Cuda (cudaDeviceDisablePeerAccess j), Cuda (cudaDeviceDisablePeerAccess i)]
      else [])"
  by (subst bandwidth_cell_bracket) (simp add: quiet_bandwidth_cell is_peer_call_def)

lemma peer_calls_latency_cell:
  "filter is_peer_call (latency_cell drv p2p m i j) =
     (if p2p \<and> canAccessPeer drv i j then
        [Cuda (cudaDeviceEnablePeerAccess j), Cuda (cudaDeviceEnablePeerAccess i),
         Cuda (cudaDeviceDisablePeerAccess j), Cuda (cudaDeviceDisablePeerAccess i)]
      else [])"
  by (subst latency_cell_bracket) (simp add: quiet_latency_cell is_peer_call_def)

lemma peer_calls_bidirectional_cell:
  "filter is_peer_call (bidirectional_cell drv p2p i j) =
     (if p2p \<and> canAccessPeer drv i j then
        [Cuda (cudaDeviceEnablePeerAccess j), Cuda (cudaDeviceEnablePeerAccess i),
         Cuda (cudaDeviceDisablePeerAccess j), Cuda (cudaDeviceDisablePeerAccess i)]
      else [])"
  by (subst bidirectional_cell_bracket) (simp add: quiet_bidirectional_cell is_peer_call_def)

lemma leaves_disabled_Nil: "leaves_disabled []"
  by (simp add: leaves_disabled_def peer_after_Nil)

lemma leaves_disabled_append:
  "leaves_disabled xs \<Longrightarrow> leaves_disabled ys \<Longrightarrow> leaves_disabled (xs @ ys)"
proof -
  assume xs: "leaves_disabled xs" and ys: "leaves_disabled ys"
  have "snd (peer_after (c, {}) (xs @ ys)) = {}" for c
  proof -
    obtain c' where "peer_after (c, {}) xs = (c', {})"
      using xs by (cases "peer_after (c, {}) xs") (auto simp: leaves_disabled_def dest: spec [of _ c])
    then show ?thesis using ys by (simp add: peer_after_append leaves_disabled_def)
  qed
  then show ?thesis by (simp add: leaves_disabled_def)
qed

lemma leaves_disabled_quiet: "filter is_peer_call xs = [] \<Longrightarrow> leaves_disabled xs"
  by (simp add: leaves_disabled_def peer_after_quiet)

lemma leaves_disabled_Cons:
  "\<not> is_peer_call a \<Longrightarrow> leaves_disabled xs \<Longrightarrow> leaves_disabled (a # xs)"
  using leaves_disabled_append [of "[a]" xs] by (simp add: leaves_disabled_quiet)

lemma leaves_disabled_for_loop:
  "(\<And>k. leaves_disabled (body k)) \<Longrightarrow> leaves_disabled (for_loop n body)"
  by (induction n)
    (simp_all add: for_loop_0 for_loop_Suc leaves_disabled_Nil leaves_disabled_append)

lemma leaves_disabled_row:
  assumes "\<And>j. peer_after (i, {}) (cell j) = (i, {})"
  shows "leaves_disabled (Cuda (cudaSetDevice i) # for_loop n cell)"
  using assms
  by (simp add: leaves_disabled_def peer_after_Cons peer_step_def peer_after_for_loop_still)

lemma for_loop_split:
  "k < n \<Longrightarrow> \<exists>rest. for_loop n body = for_loop k body @ body k @ rest"
proof -
  assume "k < n"
  then have "[0..<n] = [0..<k] @ k # [Suc k..<n]"
    by (metis le_add_diff_inverse less_imp_le_nat upt_add_eq_append upt_conv_Cons
        zero_le)
  then show ?thesis by (simp add: for_loop_def)
qed

lemma grid_split:
  assumes "i < n" "j < n"
  shows "\<exists>rest. for_loop n (\<lambda>i. Cuda (cudaSetDevice i) # for_loop n (cell i)) =
     grid_before cell n i j @ cell i j @ rest"
proof -
  let ?row = "\<lambda>i. Cuda (cudaSetDevice i) # for_loop n (cell i)"
  from for_loop_split [OF assms(1), of ?row]
  obtain r1 where r1: "for_loop n ?row = for_loop i ?row @ ?row i @ r1" by blast
  from for_loop_split [OF assms(2), of "cell i"]
  obtain r2 where r2: "for_loop n (cell i) = for_loop j (cell i) @ cell i j @ r2" by blast
  have "for_loop n ?row = grid_before cell n i j @ cell i j @ (r2 @ r1)"
    by (subst r1) (simp add: grid_before_def r2)
  then show ?thesis by blast
qed

lemma grid_before_clean:
  assumes "\<And>i j. peer_after (i, {}) (cell i j) = (i, {})"
  shows "peer_after (c, {}) (grid_before cell n i j) = (i, {})"
proof -
  have rows: "leaves_disabled (for_loop i (\<lambda>i'. Cuda (cudaSetDevice i') # for_loop n (cell i')))"
    by (rule leaves_disabled_for_loop) (rule leaves_disabled_row, rule assms)
  obtain c' where "peer_after (c, {})
      (for_loop i (\<lambda>i'. Cuda (cudaSetDevice i') # for_loop n (cell i'))) = (c', {})"
    using rows
    by (cases "peer_after (c, {}) (for_loop i (\<lambda>i'. Cuda (cudaSetDevice i') # for_loop n (cell i')))")
      (auto simp: leaves_disabled_def dest: spec [of _ c])
  then show ?thesis
    by (simp add: grid_before_def peer_after_append peer_after_Cons peer_step_def
        peer_after_for_loop_still assms)
qed

lemma grid_before_clean_bidirectional:
  "snd (peer_after (c, {}) (grid_before (bidirectional_cell drv p2p) n i j)) = {}"
proof -
  have cell: "leaves_disabled (bidirectional_cell drv p2p i' j')" for i' j'
    by (simp add: leaves_disabled_def bidirectional_cell_after)
  have "leaves_disabled (grid_before (bidirectional_cell drv p2p) n i j)"
    unfolding grid_before_def
    by (intro leaves_disabled_append leaves_disabled_for_loop leaves_disabled_Cons cell)
      (simp_all add: is_peer_call_def)
  then show ?thesis by (simp add: leaves_disabled_def)
qed

lemma no_peer_call_print_matrix: "filter is_peer_call (print_matrix h n m) = []"
  by (simp add: print_matrix_def filter_for_loop for_loop_Nil is_peer_call_def)

lemma leaves_disabled_bandwidth_grid: "leaves_disabled (fst (bandwidth_grid drv t n p2p m))"
  unfolding fst_bandwidth_grid
  by (intro leaves_disabled_for_loop leaves_disabled_row bandwidth_cell_after)

lemma leaves_disabled_latency_grid: "leaves_disabled (fst (latency_grid drv g c n p2p m))"
  unfolding fst_latency_grid
  by (intro leaves_disabled_for_loop leaves_disabled_row latency_cell_after)

lemma leaves_disabled_bidirectional_grid:
  "leaves_disabled (fst (bidirectional_grid drv t n p2p))"
proof -
  have cell: "leaves_disabled (bidirectional_cell drv p2p i j)" for i j
    by (simp add: leaves_disabled_def bidirectional_cell_after)
  show ?thesis
    unfolding fst_bidirectional_grid
    by (intro leaves_disabled_for_loop leaves_disabled_Cons cell) (simp add: is_peer_call_def)
qed

lemma leaves_disabled_outputBandwidthMatrix:
  "leaves_disabled (outputBandwidthMatrix drv t n p2p m)"
  unfolding outputBandwidthMatrix_def split_beta Let_def
  by (intro leaves_disabled_append leaves_disabled_for_loop leaves_disabled_Cons
      leaves_disabled_Nil leaves_disabled_bandwidth_grid
      leaves_disabled_quiet [OF no_peer_call_print_matrix])
    (simp_all add: is_peer_call_def)

lemma leaves_disabled_outputBidirectionalBandwidthMatrix:
  "leaves_disabled (outputBidirectionalBandwidthMatrix drv t n p2p)"
  unfolding outputBidirectionalBandwidthMatrix_def split_beta Let_def
  by (intro leaves_disabled_append leaves_disabled_for_loop leaves_disabled_Cons
      leaves_disabled_Nil leaves_disabled_bidirectional_grid
      leaves_disabled_quiet [OF no_peer_call_print_matrix])
    (simp_all add: is_peer_call_def)

lemma leaves_disabled_outputLatencyMatrix:
  "leaves_disabled (outputLatencyMatrix drv g c n p2p m)"
proof -
  have t: "leaves_disabled (if \<not> createTimer drv
      then [Printf ''Failed to create stop watch\<newline>'' [], Exit EXIT_FAILURE] else [])"
    by (rule leaves_disabled_quiet) (simp add: is_peer_call_def)
  show ?thesis
    unfolding outputLatencyMatrix_def split_beta Let_def
    by (intro leaves_disabled_append leaves_disabled_for_loop leaves_disabled_Cons
        leaves_disabled_Nil leaves_disabled_latency_grid t
        leaves_disabled_quiet [OF no_peer_call_print_matrix])
      (simp_all add: is_peer_call_def)
qed

lemma clean_prefix:
  assumes "filter is_peer_call A = []"
    and "\<And>c. peer_after (c, {}) G = (i, {})"
  shows "peer_after (c, {}) (A @ G) = (i, {})"
proof -
  obtain c' where "peer_after (c, {}) A = (c', {})"
    using peer_after_quiet [OF assms(1), of "(c, {})"]
    by (cases "peer_after (c, {}) A") simp
  then show ?thesis by (simp add: peer_after_append assms(2))
qed

lemma clean_prefix_snd:
  assumes "filter is_peer_call A = []"
    and "\<And>c. snd (peer_after (c, {}) G) = {}"
  shows "snd (peer_after (c, {}) (A @ G)) = {}"
proof -
  obtain c' where "peer_after (c, {}) A = (c', {})"
    using peer_after_quiet [OF assms(1), of "(c, {})"]
    by (cases "peer_after (c, {}) A") simp
  then show ?thesis by (simp add: peer_after_append assms(2))
qed

lemma bandwidth_sweep_cell:
  assumes "i < n" "j < n"
  shows "\<exists>before rest.
     outputBandwidthMatrix drv t n p2p m = before @ bandwidth_cell drv p2p m i j @ rest \<and>
     peer_after (c, {}) before = (i, {})"
proof -
  define A where "A = [Cuda cudaHostAlloc, cudaCheckError] @
      for_loop n (\<lambda>d.
        [Cuda (cudaSetDevice d),
         Cuda (cudaStreamCreateWithFlags (Stream d)),
         Cuda (cudaMalloc (Buffers d) (numElems * sizeof_int)), cudaCheckError,
         Cuda (cudaMalloc (BuffersD2D d) (numElems * sizeof_int)), cudaCheckError,
         Cuda (cudaEventCreate (Start d)), cudaCheckError,
         Cuda (cudaEventCreate (Stop d)), cudaCheckError])"
  have "\<exists>B. outputBandwidthMatrix drv t n p2p m = A @ fst (bandwidth_grid drv t n p2p m) @ B"
    by (simp add: outputBandwidthMatrix_def split_beta A_def)
  then obtain B where s: "outputBandwidthMatrix drv t n p2p m =
      A @ fst (bandwidth_grid drv t n p2p m) @ B" by blast
  have q: "filter is_peer_call A = []"
    by (simp add: A_def filter_for_loop for_loop_Nil is_peer_call_def)
  from grid_split [OF assms, of "bandwidth_cell drv p2p m"]
  obtain r where g: "fst (bandwidth_grid drv t n p2p m) =
      grid_before (bandwidth_cell drv p2p m) n i j @ bandwidth_cell drv p2p m i j @ r"
    unfolding fst_bandwidth_grid by blast
  have "outputBandwidthMatrix drv t n p2p m =
      (A @ grid_before (bandwidth_cell drv p2p m) n i j) @ bandwidth_cell drv p2p m i j @ (r @ B)"
    by (simp add: s g)
  moreover have "peer_after (c, {}) (A @ grid_before (bandwidth_cell drv p2p m) n i j) = (i, {})"
    by (rule clean_prefix [OF q]) (rule grid_before_clean, rule bandwidth_cell_after)
  ultimately show ?thesis by blast
qed

lemma bidirectional_sweep_cell:
  assumes "i < n" "j < n"
  shows "\<exists>before rest.
     outputBidirectionalBandwidthMatrix drv t n p2p =
       before @ bidirectional_cell drv p2p i j @ rest \<and>
     snd (peer_after (c, {}) before) = {}"
proof -
  define A where "A = [Cuda cudaHostAlloc, cudaCheckError] @
      for_loop n (\<lambda>d.
        [Cuda (cudaSetDevice d),
         Cuda (cudaMalloc (Buffers d) (numElems * sizeof_int)),
         Cuda (cudaMalloc (BuffersD2D d) (numElems * sizeof_int)), cudaCheckError,
         Cuda (cudaEventCreate (Start d)), cudaCheckError,
         Cuda (cudaEventCreate (Stop d)), cudaCheckError,
         Cuda (cudaStreamCreateWithFlags (Stream0 d)), cudaCheckError,
         Cuda (cudaStreamCreateWithFlags (Stream1 d)), cudaCheckError])"
  have "\<exists>B. outputBidirectionalBandwidthMatrix drv t n p2p =
      A @ fst (bidirectional_grid drv t n p2p) @ B"
    by (simp add: outputBidirectionalBandwidthMatrix_def split_beta A_def)
  then obtain B where s: "outputBidirectionalBandwidthMatrix drv t n p2p =
      A @ fst (bidirectional_grid drv t n p2p) @ B" by blast
  have q: "filter is_peer_call A = []"
    by (simp add: A_def filter_for_loop for_loop_Nil is_peer_call_def)
  from grid_split [OF assms, of "bidirectional_cell drv p2p"]
  obtain r where g: "fst (bidirectional_grid drv t n p2p) =
      grid_before (bidirectional_cell drv p2p) n i j @ bidirectional_cell drv p2p i j @ r"
    unfolding fst_bidirectional_grid by blast
  have "outputBidirectionalBandwidthMatrix drv t n p2p =
      (A @ grid_before (bidirectional_cell drv p2p) n i j) @ bidirectional_cell drv p2p i j @ (r @ B)"
    by (simp add: s g)
  moreover have "snd (peer_after (c, {}) (A @ grid_before (bidirectional_cell drv p2p) n i j)) = {}"
    by (rule clean_prefix_snd [OF q]) (rule grid_before_clean_bidirectional)
  ultimately show ?thesis by blast
qed

lemma latency_sweep_cell:
  assumes "i < n" "j < n"
  shows "\<exists>before rest.
     outputLatencyMatrix drv g c' n p2p m = before @ latency_cell drv p2p m i j @ rest \<and>
     peer_after (c, {}) before = (i, {})"
proof -
  define A where "A = [Cuda cudaHostAlloc, cudaCheckError, Timer sdkCreateTimer] @
      (if \<not> createTimer drv then
         [Printf ''Failed to create stop watch\<newline>'' [], Exit EXIT_FAILURE]
       else []) @
      [Timer sdkStartTimer] @
      for_loop n (\<lambda>d.
        [Cuda (cudaSetDevice d),
         Cuda (cudaStreamCreateWithFlags (Stream d)),
         Cuda (cudaMalloc (Buffers d) 1),
         Cuda (cudaMalloc (BuffersD2D d) 1), cudaCheckError,
         Cuda (cudaEventCreate (Start d)), cudaCheckError,
         Cuda (cudaEventCreate (Stop d)), cudaCheckError])"
  have "\<exists>B. outputLatencyMatrix drv g c' n p2p m = A @ fst (latency_grid drv g c' n p2p m) @ B"
    by (simp add: outputLatencyMatrix_def split_beta A_def)
  then obtain B where s: "outputLatencyMatrix drv g c' n p2p m =
      A @ fst (latency_grid drv g c' n p2p m) @ B" by blast
  have q: "filter is_peer_call A = []"
    by (simp add: A_def filter_for_loop for_loop_Nil is_peer_call_def)
  from grid_split [OF assms, of "latency_cell drv p2p m"]
  obtain r where gr: "fst (latency_grid drv g c' n p2p m) =
      grid_before (latency_cell drv p2p m) n i j @ latency_cell drv p2p m i j @ r"
    unfolding fst_latency_grid by blast
  have "outputLatencyMatrix drv g c' n p2p m =
      (A @ grid_before (latency_cell drv p2p m) n i j) @ latency_cell drv p2p m i j @ (r @ B)"
    by (simp add: s gr)
  moreover have "peer_after (c, {}) (A @ grid_before (latency_cell drv p2p m) n i j) = (i, {})"
    by (rule clean_prefix [OF q]) (rule grid_before_clean, rule latency_cell_after)
  ultimately show ?thesis by blast
qed

lemma peer_calls_outputBandwidthMatrix:
  "filter is_peer_call (outputBandwidthMatrix drv t n p2p m) =
     for_loop n (\<lambda>i. for_loop n (\<lambda>j. filter is_peer_call (bandwidth_cell drv p2p m i j)))"
  using no_peer_call_print_matrix [of "''   D'' @ backslash @ ''D''" n "snd (bandwidth_grid drv t n p2p m)"]
  by (simp add: outputBandwidthMatrix_def split_beta fst_bandwidth_grid filter_for_loop
      for_loop_Nil is_peer_call_def)

lemma peer_calls_outputBidirectionalBandwidthMatrix:
  "filter is_peer_call (outputBidirectionalBandwidthMatrix drv t n p2p) =
     for_loop n (\<lambda>i. for_loop n (\<lambda>j. filter is_peer_call (bidirectional_cell drv p2p i j)))"
  using no_peer_call_print_matrix [of "''   D'' @ backslash @ ''D''" n "snd (bidirectional_grid drv t n p2p)"]
  by (simp add: outputBidirectionalBandwidthMatrix_def split_beta fst_bidirectional_grid
      filter_for_loop for_loop_Nil is_peer_call_def)

lemma peer_calls_outputLatencyMatrix:
  "filter is_peer_call (outputLatencyMatrix drv g c n p2p m) =
     for_loop n (\<lambda>i. for_loop n (\<lambda>j. filter is_peer_call (latency_cell drv p2p m i j)))"
  using no_peer_call_print_matrix [of "''   GPU''" n "fst (snd (latency_grid drv g c n p2p m))"]
    no_peer_call_print_matrix [of "''\<newline>   CPU''" n "snd (snd (latency_grid drv g c n p2p m))"]
  by (simp add: outputLatencyMatrix_def split_beta fst_latency_grid filter_for_loop
      for_loop_Nil is_peer_call_def)

lemma peer_calls_quiet:
  "filter is_peer_call (checkP2Paccess drv n) = []"
  "filter is_peer_call (connectivity_matrix drv n) = []"
  by (simp_all add: checkP2Paccess_def connectivity_matrix_def connectivity_cell_def
      filter_for_loop for_loop_Nil is_peer_call_def)

lemma peer_calls_main:
  "filter is_peer_call (main drv False p2p_read) =
     for_loop (deviceCount drv) (\<lambda>i. for_loop (deviceCount drv) (\<lambda>j.
       filter is_peer_call (bandwidth_cell drv False P2P_WRITE i j))) @
     for_loop (deviceCount drv) (\<lambda>i. for_loop (deviceCount drv) (\<lambda>j.
       filter is_peer_call (bandwidth_cell drv True P2P_WRITE i j))) @
     (if p2p_read then for_loop (deviceCount drv) (\<lambda>i. for_loop (deviceCount drv) (\<lambda>j.
       filter is_peer_call (bandwidth_cell drv True P2P_READ i j)))
      else []) @
     for_loop (deviceCount drv) (\<lambda>i. for_loop (deviceCount drv) (\<lambda>j.
       filter is_peer_call (bidirectional_cell drv False i j))) @
     for_loop (deviceCount drv) (\<lambda>i. for_loop (deviceCount drv) (\<lambda>j.
       filter is_peer_call (bidirectional_cell drv True i j))) @
     for_loop (deviceCount drv) (\<lambda>i. for_loop (deviceCount drv) (\<lambda>j.
       filter is_peer_call (latency_cell drv False P2P_WRITE i j))) @
     for_loop (deviceCount drv) (\<lambda>i. for_loop (deviceCount drv) (\<lambda>j.
       filter is_peer_call (latency_cell drv True P2P_WRITE i j))) @
     (if p2p_read then for_loop (deviceCount drv) (\<lambda>i. for_loop (deviceCount drv) (\<lambda>j.
       filter is_peer_call (latency_cell drv True P2P_READ i j)))
      else [])"
proof -
  have l: "filter is_peer_call (for_loop k (\<lambda>i. [Cuda (cudaGetDeviceProperties i),
      cudaCheckError, Printf f (args i)])) = []" for k f args
    by (simp add: filter_for_loop for_loop_Nil is_peer_call_def)
  have a: "is_peer_call (Printf f args) = False" "is_peer_call cudaCheckError = False"
    "is_peer_call (Cuda cudaGetDeviceCount) = False" "is_peer_call (Exit e) = False"
    for f args e
    by (simp_all add: is_peer_call_def)
  show ?thesis
    by (simp add: main_def Let_def l a peer_calls_quiet peer_calls_outputBandwidthMatrix
        peer_calls_outputBidirectionalBandwidthMatrix peer_calls_outputLatencyMatrix)
qed

text \<open>
  Claim C6. In every cell of the three sweeps, started with no peer access enabled, the
  relation is enabled in both directions, \<open>(i, j)\<close> and \<open>(j, i)\<close>, throughout the
  measurement of the cell (stream waits, flag writes, enqueued operations, timer calls
  and the reading of the elapsed time) exactly when P2P was requested and
  \<open>cudaDeviceCanAccessPeer\<close> answered yes for \<open>(i, j)\<close>, and nothing is enabled
  otherwise. The peer calls of a cell are then the two enable calls followed by the two
  disable calls, and there are none otherwise; the cell ends with nothing enabled. Every
  cell \<open>(i, j)\<close> of a grid is preceded by \<open>grid_before\<close>, which leaves nothing
  enabled (and, in the unidirectional and latency sweeps, leaves device \<open>i\<close> current),
  so no cell starts with peer access left over from an earlier cell; and each sweep as a
  whole ends with nothing enabled. Each sweep contains, for every \<open>i\<close> and \<open>j\<close> below the
  number of devices, the cell \<open>(i, j)\<close> for the P2P request (and the policy) that the sweep
  was given, and what the sweep does before that cell leaves nothing enabled; the peer
  calls of a sweep are exactly the peer calls of its cells, cell after cell in row-major
  order; and the peer calls of \<open>main\<close> are those of its sweeps, each under the request
  and the policy that \<open>main\<close> gives it.
\<close>

theorem peer_access_bracket:
  "(\<forall>(a, st) \<in> set (annotate peer_step (i, {}) (bandwidth_cell drv p2p p2p_method i j)).
      is_protocol a \<longrightarrow>
      snd st = (if p2p \<and> canAccessPeer drv i j then {(i, j), (j, i)} else {})) \<and>
   (\<forall>(a, st) \<in> set (annotate peer_step (c, {}) (bidirectional_cell drv p2p i j)).
      is_protocol a \<longrightarrow>
      snd st = (if p2p \<and> canAccessPeer drv i j then {(i, j), (j, i)} else {})) \<and>
   (\<forall>(a, st) \<in> set (annotate peer_step (i, {}) (latency_cell drv p2p p2p_method i j)).
      is_protocol a \<longrightarrow>
      snd st = (if p2p \<and> canAccessPeer drv i j then {(i, j), (j, i)} else {})) \<and>
   filter is_peer_call (bandwidth_cell drv p2p p2p_method i j) =
     (if p2p \<and> canAccessPeer drv i j then
        [Cuda (cudaDeviceEnablePeerAccess j), Cuda (cudaDeviceEnablePeerAccess i),
         Cuda (cudaDeviceDisablePeerAccess j), Cuda (cudaDeviceDisablePeerAccess i)]
      else []) \<and>
   filter is_peer_call (bidirectional_cell drv p2p i j) =
     filter is_peer_call (bandwidth_cell drv p2p p2p_method i j) \<and>
   filter is_peer_call (latency_cell drv p2p p2p_method i j) =
     filter is_peer_call (bandwidth_cell drv p2p p2p_method i j) \<and>
   peer_after (i, {}) (bandwidth_cell drv p2p p2p_method i j) = (i, {}) \<and>
   snd (peer_after (c, {}) (bidirectional_cell drv p2p i j)) = {} \<and>
   peer_after (i, {}) (latency_cell drv p2p p2p_method i j) = (i, {}) \<and>
   (i < n \<and> j < n \<longrightarrow>
      (\<exists>rest. fst (bandwidth_grid drv time_ms n p2p p2p_method) =
         grid_before (bandwidth_cell drv p2p p2p_method) n i j @
         bandwidth_cell drv p2p p2p_method i j @ rest) \<and>
      (\<exists>rest. fst (bidirectional_grid drv time_ms n p2p) =
         grid_before (bidirectional_cell drv p2p) n i j @
         bidirectional_cell drv p2p i j @ rest) \<and>
      (\<exists>rest. fst (latency_grid drv time_ms cpu_time_ms n p2p p2p_method) =
         grid_before (latency_cell drv p2p p2p_method) n i j @
         latency_cell drv p2p p2p_method i j @ rest)) \<and>
   peer_after (c, {}) (grid_before (bandwidth_cell drv p2p p2p_method) n i j) = (i, {}) \<and>
   snd (peer_after (c, {}) (grid_before (bidirectional_cell drv p2p) n i j)) = {} \<and>
   peer_after (c, {}) (grid_before (latency_cell drv p2p p2p_method) n i j) = (i, {}) \<and>
   snd (peer_after (c, {}) (outputBandwidthMatrix drv time_ms n p2p p2p_method)) = {} \<and>
   snd (peer_after (c, {}) (outputBidirectionalBandwidthMatrix drv time_ms n p2p)) = {} \<and>
   snd (peer_after (c, {}) (outputLatencyMatrix drv time_ms cpu_time_ms n p2p p2p_method)) = {} \<and>
   (i < n \<and> j < n \<longrightarrow>
      (\<exists>before rest. outputBandwidthMatrix drv time_ms n p2p p2p_method =
         before @ bandwidth_cell drv p2p p2p_method i j @ rest \<and>
         peer_after (c, {}) before = (i, {})) \<and>
      (\<exists>before rest. outputBidirectionalBandwidthMatrix drv time_ms n p2p =
         before @ bidirectional_cell drv p2p i j @ rest \<and>
         snd (peer_after (c, {}) before) = {}) \<and>
      (\<exists>before rest. outputLatencyMatrix drv time_ms cpu_time_ms n p2p p2p_method =
         before @ latency_cell drv p2p p2p_method i j @ rest \<and>
         peer_after (c, {}) before = (i, {}))) \<and>
   filter is_peer_call (outputBandwidthMatrix drv time_ms n p2p p2p_method) =
     for_loop n (\<lambda>i. for_loop n (\<lambda>j.
       filter is_peer_call (bandwidth_cell drv p2p p2p_method i j))) \<and>
   filter is_peer_call (outputBidirectionalBandwidthMatrix drv time_ms n p2p) =
     for_loop n (\<lambda>i. for_loop n (\<lambda>j. filter is_peer_call (bidirectional_cell drv p2p i j))) \<and>
   filter is_peer_call (outputLatencyMatrix drv time_ms cpu_time_ms n p2p p2p_method) =
     for_loop n (\<lambda>i. for_loop n (\<lambda>j.
       filter is_peer_call (latency_cell drv p2p p2p_method i j))) \<and>
   filter is_peer_call (main drv False p2p_read) =
       for_loop (deviceCount drv) (\<lambda>i. for_loop (deviceCount drv) (\<lambda>j.
         filter is_peer_call (bandwidth_cell drv False P2P_WRITE i j))) @
       for_loop (deviceCount drv) (\<lambda>i. for_loop (deviceCount drv) (\<lambda>j.
         filter is_peer_call (bandwidth_cell drv True P2P_WRITE i j))) @
       (if p2p_read then for_loop (deviceCount drv) (\<lambda>i. for_loop (deviceCount drv) (\<lambda>j.
         filter is_peer_call (bandwidth_cell drv True P2P_READ i j)))
        else []) @
       for_loop (deviceCount drv) (\<lambda>i. for_loop (deviceCount drv) (\<lambda>j.
         filter is_peer_call (bidirectional_cell drv False i j))) @
       for_loop (deviceCount drv) (\<lambda>i. for_loop (deviceCount drv) (\<lambda>j.
         filter is_peer_call (bidirectional_cell drv True i j))) @
       for_loop (deviceCount drv) (\<lambda>i. for_loop (deviceCount drv) (\<lambda>j.
         filter is_peer_call (latency_cell drv False P2P_WRITE i j))) @
       for_loop (deviceCount drv) (\<lambda>i. for_loop (deviceCount drv) (\<lambda>j.
         filter is_peer_call (latency_cell drv True P2P_WRITE i j))) @
       (if p2p_read then for_loop (deviceCount drv) (\<lambda>i. for_loop (deviceCount drv) (\<lambda>j.
         filter is_peer_call (latency_cell drv True P2P_READ i j)))
        else [])"
proof -
  have grids: "i < n \<and> j < n \<longrightarrow>
      (\<exists>rest. fst (bandwidth_grid drv time_ms n p2p p2p_method) =
         grid_before (bandwidth_cell drv p2p p2p_method) n i j @
         bandwidth_cell drv p2p p2p_method i j @ rest) \<and>
      (\<exists>rest. fst (bidirectional_grid drv time_ms n p2p) =
         grid_before (bidirectional_cell drv p2p) n i j @
         bidirectional_cell drv p2p i j @ rest) \<and>
      (\<exists>rest. fst (latency_grid drv time_ms cpu_time_ms n p2p p2p_method) =
         grid_before (latency_cell drv p2p p2p_method) n i j @
         latency_cell drv p2p p2p_method i j @ rest)"
    unfolding fst_bandwidth_grid fst_bidirectional_grid fst_latency_grid
    by (intro impI conjI grid_split) simp_all
  have sweeps:
    "snd (peer_after (c, {}) (outputBandwidthMatrix drv time_ms n p2p p2p_method)) = {}"
    "snd (peer_after (c, {}) (outputBidirectionalBandwidthMatrix drv time_ms n p2p)) = {}"
    "snd (peer_after (c, {}) (outputLatencyMatrix drv time_ms cpu_time_ms n p2p p2p_method)) = {}"
    using leaves_disabled_outputBandwidthMatrix [of drv time_ms n p2p p2p_method]
      leaves_disabled_outputBidirectionalBandwidthMatrix [of drv time_ms n p2p]
      leaves_disabled_outputLatencyMatrix [of drv time_ms cpu_time_ms n p2p p2p_method]
    by (simp_all add: leaves_disabled_def)
  have calls: "filter is_peer_call (bidirectional_cell drv p2p i j) =
      filter is_peer_call (bandwidth_cell drv p2p p2p_method i j)"
    "filter is_peer_call (latency_cell drv p2p p2p_method i j) =
      filter is_peer_call (bandwidth_cell drv p2p p2p_method i j)"
    by (simp_all only: peer_calls_bandwidth_cell peer_calls_bidirectional_cell
        peer_calls_latency_cell)
  have sweepcells: "(i < n \<and> j < n \<longrightarrow>
         (\<exists>before rest. outputBandwidthMatrix drv time_ms n p2p p2p_method =
            before @ bandwidth_cell drv p2p p2p_method i j @ rest \<and>
            peer_after (c, {}) before = (i, {})) \<and>
         (\<exists>before rest. outputBidirectionalBandwidthMatrix drv time_ms n p2p =
            before @ bidirectional_cell drv p2p i j @ rest \<and>
            snd (peer_after (c, {}) before) = {}) \<and>
         (\<exists>before rest. outputLatencyMatrix drv time_ms cpu_time_ms n p2p p2p_method =
            before @ latency_cell drv p2p p2p_method i j @ rest \<and>
            peer_after (c, {}) before = (i, {})))"
    using bandwidth_sweep_cell [of i n j drv time_ms p2p p2p_method c]
      bidirectional_sweep_cell [of i n j drv time_ms p2p c]
      latency_sweep_cell [of i n j drv time_ms cpu_time_ms p2p p2p_method c]
    by blast
  show ?thesis
    by (intro conjI bandwidth_cell_enabled bidirectional_cell_enabled latency_cell_enabled
        peer_calls_bandwidth_cell calls bandwidth_cell_after bidirectional_cell_after
        latency_cell_after grids grid_before_clean grid_before_clean_bidirectional sweeps
        sweepcells peer_calls_outputBandwidthMatrix peer_calls_outputBidirectionalBandwidthMatrix
        peer_calls_outputLatencyMatrix peer_calls_main)
qed

theorem peer_access_bracket_witness:
  "(0::nat) < 2 \<and> (1::nat) < 2 \<and>
   (\<exists>rest. fst (bandwidth_grid two_gpus (every_cell 20) 2 True P2P_WRITE) =
      grid_before (bandwidth_cell two_gpus True P2P_WRITE) 2 0 1 @
      bandwidth_cell two_gpus True P2P_WRITE 0 1 @ rest) \<and>
   (\<exists>before rest. outputBandwidthMatrix two_gpus (every_cell 20) 2 True P2P_WRITE =
      before @ bandwidth_cell two_gpus True P2P_WRITE 0 1 @ rest \<and>
      peer_after (0, {}) before = (0, {})) \<and>
   annotate peer_step (0, {}) (bandwidth_cell two_gpus True P2P_WRITE 0 1) ! 12
     \<in> set (annotate peer_step (0, {}) (bandwidth_cell two_gpus True P2P_WRITE 0 1)) \<and>
   fst (annotate peer_step (0, {}) (bandwidth_cell two_gpus True P2P_WRITE 0 1) ! 12) =
     Cuda (delay (Stream 0)) \<and>
   snd (snd (annotate peer_step (0, {}) (bandwidth_cell two_gpus True P2P_WRITE 0 1) ! 12)) =
     {(0, 1), (1, 0)}"
proof -
  let ?cell = "bandwidth_cell two_gpus True P2P_WRITE 0 1"
  let ?t = "annotate peer_step (0, {}) ?cell"
  note inst = peer_access_bracket [of 0 two_gpus True P2P_WRITE 1 0 2 "every_cell 20"]
  have h: "(0::nat) < 2 \<and> (1::nat) < 2" by simp
  have acc: "canAccessPeer two_gpus 0 1" by (simp add: two_gpus_def)
  have len: "12 < length ?t"
    by (simp add: length_annotate bandwidth_cell_def Let_def for_loop_single two_gpus_def)
  then have mem: "?t ! 12 \<in> set ?t" by (rule nth_mem)
  have a: "fst (?t ! 12) = Cuda (delay (Stream 0))"
    by (simp add: bandwidth_cell_def Let_def for_loop_single two_gpus_def)
  have p: "is_protocol (fst (?t ! 12))"
    unfolding a by (simp add: is_protocol_def is_enqueue_def stream_of_def)
  from inst have "\<forall>(a, st) \<in> set ?t. is_protocol a \<longrightarrow>
      snd st = (if True \<and> canAccessPeer two_gpus 0 1 then {(0, 1), (1, 0)} else {})"
    by blast
  with mem p acc have s: "snd (snd (?t ! 12)) = {(0, 1), (1, 0)}"
    by (auto simp: split_beta)
  from inst h have g: "\<exists>rest. fst (bandwidth_grid two_gpus (every_cell 20) 2 True P2P_WRITE) =
      grid_before (bandwidth_cell two_gpus True P2P_WRITE) 2 0 1 @
      bandwidth_cell two_gpus True P2P_WRITE 0 1 @ rest"
    by blast
  from inst h have g': "\<exists>before rest.
      outputBandwidthMatrix two_gpus (every_cell 20) 2 True P2P_WRITE =
        before @ bandwidth_cell two_gpus True P2P_WRITE 0 1 @ rest \<and>
      peer_after (0, {}) before = (0, {})"
    by blast
  from h g g' mem a s show ?thesis by blast
qed

end
